theory Spec2Isabelle
  imports Complex_Main "HOL-Library.Sublist"
begin

section \<open>JavaScript strings\<close>

text \<open>
  A JavaScript string is a sequence of UTF-16 code units. The model keeps the code units
  below 256 (the Latin-1 range), one \<^typ>\<open>char\<close> each; the vocabulary, the colour
  classes and every text the modelled handlers compare lie in that range.
\<close>

definition toLowerChar :: "char \<Rightarrow> char" where
  "toLowerChar c =
     (let n = (of_char c :: nat)
      in if (65 \<le> n \<and> n \<le> 90) \<or> (192 \<le> n \<and> n \<le> 222 \<and> n \<noteq> 215)
         then char_of (n + 32) else c)"

definition toLowerCase :: "string \<Rightarrow> string" where
  "toLowerCase s = map toLowerChar s"

text \<open>\<open>text.includes(sub)\<close>: \<open>sub\<close> occurs in \<open>text\<close> as a contiguous run.\<close>

fun str_includes :: "string \<Rightarrow> string \<Rightarrow> bool" where
  "str_includes [] sub = (sub = [])"
| "str_includes (c # cs) sub = (prefix sub (c # cs) \<or> str_includes cs sub)"

text \<open>
  \<open>s.replace(a, b)\<close> with a string pattern of one code unit: only the first occurrence
  is replaced.
\<close>

fun replace :: "string \<Rightarrow> char \<Rightarrow> char \<Rightarrow> string" where
  "replace [] a b = []"
| "replace (c # cs) a b = (if c = a then b # cs else c # replace cs a b)"

section \<open>DiagnosisFlow: the symptom extractor\<close>

definition known :: "string list" where
  "known =
     [''fever'', ''headache'', ''cough'', ''fatigue'', ''joint_pain'',
      ''rash'', ''nausea'', ''vomiting'', ''diarrhea'', ''chills'',
      ''chest_pain'', ''shortness_of_breath'', ''body_aches'',
      ''sore_throat'', ''runny_nose'', ''muscle_pain'', ''weakness'']"

definition extractSymptoms :: "string \<Rightarrow> string list" where
  "extractSymptoms text =
     (let textLower = toLowerCase text
      in filter (\<lambda>s. str_includes textLower (replace s (CHR ''_'') (CHR '' '')) \<or> str_includes textLower s)
           known)"

text \<open>
  The human-readable form of a code as the specification words it: every underscore
  replaced by a space.
\<close>

definition humanReadable :: "string \<Rightarrow> string" where
  "humanReadable s = map (\<lambda>c. if c = CHR ''_'' then CHR '' '' else c) s"

text \<open>
  The entries a text matches as the specification words it: the lowercased text contains
  the entry or its human-readable form.
\<close>

definition specMatches :: "string \<Rightarrow> string list" where
  "specMatches text =
     filter (\<lambda>s. str_includes (toLowerCase text) (humanReadable s)
                \<or> str_includes (toLowerCase text) s) known"

section \<open>DiagnosisFlow: colour helpers\<close>

text \<open>
  JavaScript numbers are modelled as reals and the decimal literals are read exactly; the
  two functions only compare and never compute.
\<close>

definition getProbabilityColor :: "real \<Rightarrow> string" where
  "getProbabilityColor prob =
     (if prob \<ge> 0.7 then ''bg-red-500''
      else if prob \<ge> 0.4 then ''bg-yellow-500''
      else ''bg-green-500'')"

definition getConfidenceColor :: "string \<Rightarrow> string" where
  "getConfidenceColor level =
     (if level = ''High'' then ''text-green-600 bg-green-50 border-green-200''
      else if level = ''Medium'' then ''text-yellow-600 bg-yellow-50 border-yellow-200''
      else ''text-red-600 bg-red-50 border-red-200'')"

section \<open>More JavaScript helpers\<close>

text \<open>
  White space as \<open>trim\<close> and \<open>parseInt\<close> see it, within the modelled range: tab, line
  feed, vertical tab, form feed, carriage return, space and the no-break space.
\<close>

definition isWhite :: "char \<Rightarrow> bool" where
  "isWhite c = (of_char c \<in> {9, 10, 11, 12, 13, 32, 160 :: nat})"

definition trim :: "string \<Rightarrow> string" where
  "trim s = rev (dropWhile isWhite (rev (dropWhile isWhite s)))"

text \<open>\<open>s.split(sep)\<close> for a separator of one code unit; the empty string gives one empty piece.\<close>

fun str_split :: "string \<Rightarrow> char \<Rightarrow> string list" where
  "str_split [] sep = [] # []"
| "str_split (c # cs) sep =
     (if c = sep then [] # str_split cs sep
      else (case str_split cs sep of
              [] \<Rightarrow> [c] # []
            | w # ws \<Rightarrow> (c # w) # ws))"

text \<open>
  \<open>pieces.join(sep)\<close>, the inverse of \<open>split\<close>: it says what the pieces of a split are.
\<close>

fun str_join :: "string list \<Rightarrow> char \<Rightarrow> string" where
  "str_join [] sep = []"
| "str_join [w] sep = w"
| "str_join (w # v # ws) sep = w @ sep # str_join (v # ws) sep"

text \<open>
  A value read from storage or from a response field is absent (\<open>null\<close> or
  \<open>undefined\<close>, here \<open>None\<close>) or a string. A string is truthy when it is not empty;
  \<open>v || d\<close> is \<open>v\<close> when \<open>v\<close> is truthy and \<open>d\<close> otherwise.
\<close>

definition truthy :: "string option \<Rightarrow> bool" where
  "truthy v = (case v of None \<Rightarrow> False | Some s \<Rightarrow> s \<noteq> [])"

definition orElse :: "string option \<Rightarrow> string \<Rightarrow> string" where
  "orElse v d = (case v of None \<Rightarrow> d | Some s \<Rightarrow> if s = [] then d else s)"

text \<open>\<open>v || []\<close> on an optional array: every array is truthy, the empty one too.\<close>

definition orEmpty :: "'a list option \<Rightarrow> 'a list" where
  "orEmpty v = (case v of None \<Rightarrow> [] | Some xs \<Rightarrow> xs)"

text \<open>\<open>v || 0\<close> on an optional number: zero is falsy and gives the default, which is zero.\<close>

definition orZero :: "real option \<Rightarrow> real" where
  "orZero v = (case v of None \<Rightarrow> 0 | Some x \<Rightarrow> if x = 0 then 0 else x)"

text \<open>
  The result of \<open>parseInt\<close>: an integer or \<open>NaN\<close>. Integers are unbounded here; the
  values the client parses are month numbers.
\<close>

datatype js_int = NaN | Num int

definition digitVal :: "char \<Rightarrow> nat option" where
  "digitVal c =
     (let n = (of_char c :: nat)
      in if 48 \<le> n \<and> n \<le> 57 then Some (n - 48)
         else if 97 \<le> n \<and> n \<le> 102 then Some (n - 87)
         else if 65 \<le> n \<and> n \<le> 70 then Some (n - 55)
         else None)"

definition isDigitIn :: "nat \<Rightarrow> char \<Rightarrow> bool" where
  "isDigitIn radix c = (case digitVal c of None \<Rightarrow> False | Some d \<Rightarrow> d < radix)"

definition digitsValue :: "nat \<Rightarrow> string \<Rightarrow> nat" where
  "digitsValue radix z =
     foldl (\<lambda>acc c. case digitVal c of None \<Rightarrow> acc | Some d \<Rightarrow> acc * radix + d) 0 z"

text \<open>
  \<open>parseInt(s)\<close> without a radix: leading white space is skipped, one sign is read, a
  \<open>0x\<close> or \<open>0X\<close> prefix selects base sixteen, and the longest run of digits is the
  value; no digit at all gives \<open>NaN\<close>.
\<close>

definition parseInt :: "string \<Rightarrow> js_int" where
  "parseInt s =
     (let s1 = dropWhile isWhite s;
          neg = (case s1 of [] \<Rightarrow> False | c # _ \<Rightarrow> c = CHR ''-'');
          s2 = (case s1 of [] \<Rightarrow> s1
                | c # r \<Rightarrow> if c = CHR ''-'' \<or> c = CHR ''+'' then r else s1);
          hex = (case s2 of
                   a # b # _ \<Rightarrow> a = CHR ''0'' \<and> (b = CHR ''x'' \<or> b = CHR ''X'')
                 | _ \<Rightarrow> False);
          radix = (if hex then 16 else 10);
          s3 = (if hex then drop 2 s2 else s2);
          z = takeWhile (isDigitIn radix) s3
      in if z = [] then NaN
         else Num ((if neg then - 1 else 1) * int (digitsValue radix z)))"

text \<open>\<open>String(n)\<close> for an integer or \<open>NaN\<close>, as \<open>localStorage.setItem\<close> stores a number.\<close>

fun showNat :: "nat \<Rightarrow> string" where
  "showNat n =
     (if n < 10 then [char_of (48 + n)]
      else showNat (n div 10) @ [char_of (48 + n mod 10)])"

declare showNat.simps [simp del]

fun toString :: "js_int \<Rightarrow> string" where
  "toString NaN = ''NaN''"
| "toString (Num i) = (if i < 0 then CHR ''-'' # showNat (nat (- i)) else showNat (nat i))"

section \<open>Data exchanged with the backend\<close>

text \<open>
  The payloads the client only stores and shows are kept small: a candidate has the fields
  the client reads, and the treatment, trust and context payloads are opaque text.
\<close>

type_synonym predictions = "(string \<times> real) list"

record candidate =
  disease_id :: string
  name :: string
  base_probability :: real

record test =
  test_id :: string
  for_disease :: string
  cost_usd :: real

record report =
  patient_symptoms :: "string list option"
  summary :: "string option"

record similar_case =
  diagnosis :: string
  similarity_score :: real

record start_request =
  symptoms :: "string list"
  region :: string
  month :: "js_int option"
  family_history :: "string list"
  genetic_variants :: "string list"
  cnn_predictions :: "predictions option"
  case_id :: "string option"
  image_url :: "string option"
  gradcam_url :: "string option"

record form_data =
  fd_name :: string
  fd_symptoms :: string
  fd_image :: "string option"

datatype request =
    GetStatus string
  | PostStart start_request
  | PostTestResult string string string
  | GetResult string "string option"
  | PostSimilar "string list" nat
  | PostSubmit form_data

text \<open>
  What a \<open>fetch\<close> brings back: the call rejects with a message, or a response arrives
  with its \<open>ok\<close> flag and \<open>res.json()\<close> either rejects with a message or gives the body.
\<close>

datatype 'a reply = FetchRejects string | BadBody bool string | Body bool 'a

record status_data =
  sr_candidates :: "candidate list option"
  sr_recommended_tests :: "test list option"
  sr_completed_tests :: "(string \<rightharpoonup> string) option"
  sr_total_cost :: "real option"
  sr_status :: "string option"

record start_data =
  sd_session_id :: "string option"
  sd_candidates :: "candidate list option"
  sd_recommended_tests :: "test list option"
  sd_contextual_factors :: "string option"
  sd_detail :: "string option"

record test_data =
  td_updated_candidates :: "candidate list option"
  td_total_cost :: "real option"
  td_status :: "string option"
  td_recommended_tests :: "test list option"
  td_detail :: "string option"

record result_data =
  rd_treatment :: "string option"
  rd_trustworthiness :: "string option"
  rd_report :: "report option"

record similar_data =
  sim_similar_cases :: "similar_case list option"

record submit_data =
  sub_case_id :: "string option"
  sub_predictions :: "predictions option"
  sub_image_url :: "string option"
  sub_gradcam_url :: "string option"
  sub_error :: "string option"
  sub_detail :: "string option"

section \<open>Client storage\<close>

text \<open>
  \<open>localStorage\<close>, one field for each key the pages use; \<open>None\<close> is a key that is not
  stored. The items written with \<open>JSON.stringify\<close> hold the value the text encodes.
\<close>

record last_analysis =
  ddx_candidates :: "candidate list"
  cnn_output :: "string option"
  cnn_confidence :: "real option"
  la_image_url :: "string option"
  la_gradcam_url :: "string option"
  la_predictions :: "predictions option"
  analysis_output :: string
  created_at :: string

datatype analysis_item = SubmitData submit_data | FlowAnalysis last_analysis

record storage =
  ls_symptoms :: "string option"
  ls_patientRegion :: "string option"
  ls_symptomMonth :: "string option"
  ls_familyHistory :: "string option"
  ls_geneticVariants :: "string option"
  ls_cnnPredictions :: "predictions option"
  ls_imageUrl :: "string option"
  ls_gradcamUrl :: "string option"
  ls_diagnosisCaseId :: "string option"
  ls_diagnosisSessionId :: "string option"
  ls_lastCaseId :: "string option"
  ls_lastAnalysis :: "analysis_item option"

text \<open>A storage in which none of the keys is stored.\<close>

definition emptyStorage :: storage where
  "emptyStorage =
     \<lparr>ls_symptoms = None, ls_patientRegion = None, ls_symptomMonth = None,
      ls_familyHistory = None, ls_geneticVariants = None, ls_cnnPredictions = None,
      ls_imageUrl = None, ls_gradcamUrl = None, ls_diagnosisCaseId = None,
      ls_diagnosisSessionId = None, ls_lastCaseId = None, ls_lastAnalysis = None\<rparr>"

text \<open>\<open>String(v)\<close> of a response field that may be missing.\<close>

definition stringOf :: "string option \<Rightarrow> string" where
  "stringOf v = (case v of None \<Rightarrow> ''undefined'' | Some s \<Rightarrow> s)"

section \<open>SymptomsPage\<close>

record symptoms_page =
  sp_symptoms :: string
  sp_region :: string
  sp_month :: js_int
  sp_familyHistory :: string
  sp_geneticVariants :: string

datatype route = UploadScans | DiagnosisFlowRoute

text \<open>
  The month selector: \<open>Array.from({ length: 12 }, (_, i) => ... value={i + 1})\<close>. The
  page starts on \<open>new Date().getMonth() + 1\<close> and a selection stores
  \<open>parseInt(e.target.value)\<close>, the value being the text of one of the options.
\<close>

definition monthOptions :: "int list" where
  "monthOptions = map (\<lambda>i. int i + 1) [0..<12]"

definition initialMonth :: "nat \<Rightarrow> js_int" where
  "initialMonth getMonth = Num (int getMonth + 1)"

definition selectMonth :: "string \<Rightarrow> symptoms_page \<Rightarrow> symptoms_page" where
  "selectMonth v pg = pg\<lparr>sp_month := parseInt v\<rparr>"

definition saveContext :: "symptoms_page \<Rightarrow> storage \<Rightarrow> storage" where
  "saveContext pg ls =
     ls\<lparr>ls_symptoms := Some (sp_symptoms pg),
        ls_patientRegion := Some (sp_region pg),
        ls_symptomMonth := Some (toString (sp_month pg)),
        ls_familyHistory := Some (sp_familyHistory pg),
        ls_geneticVariants := Some (sp_geneticVariants pg)\<rparr>"

text \<open>The five \<open>removeItem\<close> calls both symptom-only paths make.\<close>

definition clearStale :: "storage \<Rightarrow> storage" where
  "clearStale ls =
     ls\<lparr>ls_cnnPredictions := None,
        ls_imageUrl := None,
        ls_gradcamUrl := None,
        ls_diagnosisCaseId := None,
        ls_diagnosisSessionId := None\<rparr>"

definition handleSubmit :: "symptoms_page \<Rightarrow> storage \<Rightarrow> storage \<times> route option" where
  "handleSubmit pg ls =
     (if trim (sp_symptoms pg) = [] then (ls, None)
      else (saveContext pg ls, Some UploadScans))"

definition handleSymptomOnlyAnalysis :: "symptoms_page \<Rightarrow> storage \<Rightarrow> storage \<times> route option" where
  "handleSymptomOnlyAnalysis pg ls =
     (if trim (sp_symptoms pg) = [] then (ls, None)
      else (clearStale (saveContext pg ls), Some DiagnosisFlowRoute))"

section \<open>UploadScansPage\<close>

text \<open>
  The status line of the page. The messages are fixed texts (with a pictogram in front);
  the error message carries the text the server sent.
\<close>

datatype upload_status =
    NoStatus
  | NeedInput
  | NoSymptomsSaved
  | Analyzing
  | AnalyzingSymptomsOnly
  | Complete
  | ErrorStatus string
  | ServerError

record upload_page =
  up_file :: "string option"
  up_status :: upload_status
  up_loading :: bool

definition storeUpload :: "submit_data \<Rightarrow> storage \<Rightarrow> storage" where
  "storeUpload data ls =
     ls\<lparr>ls_lastCaseId := Some (stringOf (sub_case_id data)),
        ls_lastAnalysis := Some (SubmitData data),
        ls_cnnPredictions :=
          (case sub_predictions data of
             None \<Rightarrow> ls_cnnPredictions ls
           | Some p \<Rightarrow> if length p > 0 then Some p else ls_cnnPredictions ls),
        ls_imageUrl :=
          (if truthy (sub_image_url data) then sub_image_url data else ls_imageUrl ls),
        ls_gradcamUrl :=
          (if truthy (sub_gradcam_url data) then sub_gradcam_url data else ls_gradcamUrl ls),
        ls_diagnosisCaseId :=
          (if truthy (sub_case_id data) then sub_case_id data else ls_diagnosisCaseId ls)\<rparr>"

text \<open>
  Each handler takes the reply the backend will give, the page and the storage, and
  returns the page, the storage, the requests it issued and whether it navigated to the
  diagnosis flow.
\<close>

definition handleUpload ::
  "submit_data reply \<Rightarrow> upload_page \<Rightarrow> storage \<Rightarrow>
     upload_page \<times> storage \<times> request list \<times> bool" where
  "handleUpload net pg ls =
     (let symptoms = orElse (ls_symptoms ls) ''''
      in if up_file pg = None \<and> symptoms = []
         then (pg\<lparr>up_status := NeedInput\<rparr>, ls, [], False)
         else
           let formData = \<lparr>fd_name = ''Anonymous Patient'', fd_symptoms = symptoms,
                            fd_image = up_file pg\<rparr>;
               pg1 = pg\<lparr>up_loading := True, up_status := Analyzing\<rparr>;
               reqs = [PostSubmit formData]
           in case net of
                FetchRejects _ \<Rightarrow>
                  (pg1\<lparr>up_status := ServerError, up_loading := False\<rparr>, ls, reqs, False)
              | BadBody _ _ \<Rightarrow>
                  (pg1\<lparr>up_status := ServerError, up_loading := False\<rparr>, ls, reqs, False)
              | Body ok data \<Rightarrow>
                  if ok
                  then (pg1\<lparr>up_status := Complete, up_loading := False\<rparr>,
                        storeUpload data ls, reqs, True)
                  else (pg1\<lparr>up_status :=
                             ErrorStatus (orElse (sub_error data)
                               (orElse (sub_detail data) ''Something went wrong'')),
                           up_loading := False\<rparr>, ls, reqs, False))"

definition handleSkipScan ::
  "submit_data reply \<Rightarrow> upload_page \<Rightarrow> storage \<Rightarrow>
     upload_page \<times> storage \<times> request list \<times> bool" where
  "handleSkipScan net pg ls =
     (if \<not> truthy (ls_symptoms ls)
      then (pg\<lparr>up_status := NoSymptomsSaved\<rparr>, ls, [], False)
      else
        let formData = \<lparr>fd_name = ''Anonymous Patient'',
                         fd_symptoms = orElse (ls_symptoms ls) '''', fd_image = None\<rparr>;
            pg1 = pg\<lparr>up_loading := True, up_status := AnalyzingSymptomsOnly\<rparr>;
            reqs = [PostSubmit formData]
        in case net of
             FetchRejects _ \<Rightarrow>
               (pg1\<lparr>up_status := ServerError, up_loading := False\<rparr>, ls, reqs, False)
           | BadBody _ _ \<Rightarrow>
               (pg1\<lparr>up_status := ServerError, up_loading := False\<rparr>, ls, reqs, False)
           | Body ok data \<Rightarrow>
               if ok
               then (pg1\<lparr>up_status := Complete, up_loading := False\<rparr>,
                     clearStale
                       (ls\<lparr>ls_lastCaseId := Some (stringOf (sub_case_id data)),
                           ls_lastAnalysis := Some (SubmitData data)\<rparr>),
                     reqs, True)
               else (pg1\<lparr>up_status :=
                          ErrorStatus (orElse (sub_error data)
                            (orElse (sub_detail data) ''Something went wrong'')),
                        up_loading := False\<rparr>, ls, reqs, False))"

section \<open>DiagnosisFlow: state\<close>

record flow =
  step :: nat
  loading :: bool
  error :: string
  sessionId :: "string option"
  candidates :: "candidate list"
  recommendedTests :: "test list"
  completedTests :: "string \<rightharpoonup> string"
  totalCost :: real
  treatment :: "string option"
  sessionStatus :: "string option"
  trustworthiness :: "string option"
  report :: "report option"
  contextualFactors :: "string option"
  similarCases :: "similar_case list"
  contraindications :: string
  cnnPredictions :: "predictions option"
  imageUrl :: "string option"
  gradcamUrl :: "string option"
  caseId :: "string option"

text \<open>The state of a freshly mounted component (the \<open>useState\<close> initial values).\<close>

definition initialFlow :: flow where
  "initialFlow =
     \<lparr>step = 1, loading = False, error = '''', sessionId = None, candidates = [],
      recommendedTests = [], completedTests = Map.empty, totalCost = 0, treatment = None,
      sessionStatus = Some ''in_progress'', trustworthiness = None, report = None,
      contextualFactors = None, similarCases = [], contraindications = '''',
      cnnPredictions = None, imageUrl = None, gradcamUrl = None, caseId = None\<rparr>"

section \<open>DiagnosisFlow: starting a diagnosis\<close>

text \<open>
  The inline expression
  \<open>stored ? stored.split(",").map(s => s.trim()).filter(Boolean) : []\<close>.
\<close>

definition commaTerms :: "string option \<Rightarrow> string list" where
  "commaTerms stored =
     (case stored of
        None \<Rightarrow> []
      | Some s \<Rightarrow>
          if s = [] then []
          else filter (\<lambda>x. x \<noteq> []) (map trim (str_split s (CHR '',''))))"

text \<open>The request body \<open>startDiagnosis\<close> builds before it calls the backend.\<close>

definition startRequest ::
  "storage \<Rightarrow> string \<Rightarrow> predictions option \<Rightarrow> string option \<Rightarrow> string option \<Rightarrow>
     string option \<Rightarrow> start_request" where
  "startRequest ls symptomsText cnnPreds imgUrl gcamUrl csId =
     (let symptomKeywords = extractSymptoms symptomsText;
          storedRegion = orElse (ls_patientRegion ls) ''Global'';
          storedMonth = ls_symptomMonth ls;
          storedFamily = ls_familyHistory ls;
          storedGenetic = ls_geneticVariants ls
      in \<lparr>symptoms = symptomKeywords,
          region = storedRegion,
          month = (case storedMonth of
                     None \<Rightarrow> None
                   | Some m \<Rightarrow> if m = [] then None else Some (parseInt m)),
          family_history = commaTerms storedFamily,
          genetic_variants = commaTerms storedGenetic,
          cnn_predictions = cnnPreds,
          case_id = (if truthy csId then csId else None),
          image_url = (if truthy imgUrl then imgUrl else None),
          gradcam_url = (if truthy gcamUrl then gcamUrl else None)\<rparr>)"

text \<open>
  The handlers of the flow take the replies the backend will give, the component state
  and the storage, and return the state and the storage once the handler has settled,
  with the requests it issued in order.
\<close>

definition startDiagnosis ::
  "start_data reply \<Rightarrow> string \<Rightarrow> predictions option \<Rightarrow> string option \<Rightarrow> string option \<Rightarrow>
     string option \<Rightarrow> flow \<Rightarrow> storage \<Rightarrow> flow \<times> storage \<times> request list" where
  "startDiagnosis net symptomsText cnnPreds imgUrl gcamUrl csId st ls =
     (let st1 = st\<lparr>loading := True, error := ''''\<rparr>;
          reqs = [PostStart (startRequest ls symptomsText cnnPreds imgUrl gcamUrl csId)]
      in case net of
           FetchRejects msg \<Rightarrow>
             (st1\<lparr>error := ''Server error: '' @ msg, loading := False\<rparr>, ls, reqs)
         | BadBody _ msg \<Rightarrow>
             (st1\<lparr>error := ''Server error: '' @ msg, loading := False\<rparr>, ls, reqs)
         | Body ok data \<Rightarrow>
             if ok
             then (st1\<lparr>sessionId := sd_session_id data,
                       candidates := orEmpty (sd_candidates data),
                       recommendedTests := orEmpty (sd_recommended_tests data),
                       contextualFactors :=
                         (if truthy (sd_contextual_factors data)
                          then sd_contextual_factors data else None),
                       loading := False\<rparr>,
                   ls\<lparr>ls_symptoms := None,
                      ls_cnnPredictions := None,
                      ls_imageUrl := None,
                      ls_gradcamUrl := None,
                      ls_diagnosisCaseId := None,
                      ls_diagnosisSessionId := Some (stringOf (sd_session_id data))\<rparr>,
                   reqs)
             else (st1\<lparr>error := orElse (sd_detail data) ''Failed to start diagnosis'',
                       loading := False\<rparr>, ls, reqs))"

section \<open>DiagnosisFlow: resuming a session\<close>

text \<open>
  On a response that is not \<open>ok\<close> the handler calls \<open>startDiagnosis(symptoms)\<close> with
  the text alone and does not wait for it; its own \<open>finally\<close> and the one of
  \<open>startDiagnosis\<close> both end with \<open>loading\<close> off, so the settled state is the one
  \<open>startDiagnosis\<close> leaves.
\<close>

definition resumeSession ::
  "status_data reply \<Rightarrow> start_data reply \<Rightarrow> string \<Rightarrow> flow \<Rightarrow> storage \<Rightarrow>
     flow \<times> storage \<times> request list" where
  "resumeSession net startNet savedSessionId st ls =
     (let st1 = st\<lparr>loading := True, error := ''''\<rparr>;
          reqs = [GetStatus savedSessionId];
          failed = (\<lambda>msg.
            (st1\<lparr>error := ''Could not resume session: '' @ msg, loading := False\<rparr>,
             ls\<lparr>ls_diagnosisSessionId := None\<rparr>, reqs))
      in case net of
           FetchRejects msg \<Rightarrow> failed msg
         | BadBody ok msg \<Rightarrow>
             if ok then failed msg
             else
               (let ls1 = ls\<lparr>ls_diagnosisSessionId := None\<rparr>
                in if truthy (ls_symptoms ls1)
                   then (case startDiagnosis startNet (orElse (ls_symptoms ls1) '''')
                                None None None None st1 ls1 of
                           (st2, ls2, reqs2) \<Rightarrow> (st2\<lparr>loading := False\<rparr>, ls2, reqs @ reqs2))
                   else (st1\<lparr>loading := False\<rparr>, ls1, reqs))
         | Body ok data \<Rightarrow>
             if ok
             then (st1\<lparr>sessionId := Some savedSessionId,
                       candidates := orEmpty (sr_candidates data),
                       recommendedTests := orEmpty (sr_recommended_tests data),
                       completedTests :=
                         (case sr_completed_tests data of None \<Rightarrow> Map.empty | Some m \<Rightarrow> m),
                       totalCost := orZero (sr_total_cost data),
                       sessionStatus := Some (orElse (sr_status data) ''in_progress''),
                       step := 2,
                       loading := False\<rparr>, ls, reqs)
             else
               (let ls1 = ls\<lparr>ls_diagnosisSessionId := None\<rparr>
                in if truthy (ls_symptoms ls1)
                   then (case startDiagnosis startNet (orElse (ls_symptoms ls1) '''')
                                None None None None st1 ls1 of
                           (st2, ls2, reqs2) \<Rightarrow> (st2\<lparr>loading := False\<rparr>, ls2, reqs @ reqs2))
                   else (st1\<lparr>loading := False\<rparr>, ls1, reqs)))"

section \<open>DiagnosisFlow: the mount effect\<close>

definition mountEffect ::
  "status_data reply \<Rightarrow> start_data reply \<Rightarrow> flow \<Rightarrow> storage \<Rightarrow>
     flow \<times> storage \<times> request list" where
  "mountEffect net startNet st ls =
     (let savedCnn = ls_cnnPredictions ls;
          savedImage = ls_imageUrl ls;
          savedGradcam = ls_gradcamUrl ls;
          savedCaseId = ls_diagnosisCaseId ls;
          st1 = st\<lparr>cnnPredictions :=
                      (case savedCnn of None \<Rightarrow> cnnPredictions st | Some p \<Rightarrow> Some p),
                    imageUrl := (if truthy savedImage then savedImage else imageUrl st),
                    gradcamUrl := (if truthy savedGradcam then savedGradcam else gradcamUrl st),
                    caseId := (if truthy savedCaseId then savedCaseId else caseId st)\<rparr>;
          savedSessionId = ls_diagnosisSessionId ls
      in if truthy savedSessionId
         then resumeSession net startNet (orElse savedSessionId '''') st1 ls
         else if truthy (ls_symptoms ls)
         then startDiagnosis startNet (orElse (ls_symptoms ls) '''') savedCnn
                savedImage savedGradcam savedCaseId st1 ls
         else (st1, ls, []))"

section \<open>DiagnosisFlow: submitting a test result\<close>

definition submitTestResult ::
  "test_data reply \<Rightarrow> string \<Rightarrow> string \<Rightarrow> flow \<Rightarrow> flow \<times> request list" where
  "submitTestResult net testId result st =
     (case sessionId st of
        None \<Rightarrow> (st, [])
      | Some sid \<Rightarrow>
          if sid = [] then (st, [])
          else
            let st1 = st\<lparr>loading := True\<rparr>;
                reqs = [PostTestResult sid testId result]
            in case net of
                 FetchRejects msg \<Rightarrow>
                   (st1\<lparr>error := ''Server error: '' @ msg, loading := False\<rparr>, reqs)
               | BadBody _ msg \<Rightarrow>
                   (st1\<lparr>error := ''Server error: '' @ msg, loading := False\<rparr>, reqs)
               | Body ok data \<Rightarrow>
                   if ok
                   then (st1\<lparr>candidates := orEmpty (td_updated_candidates data),
                             totalCost := orZero (td_total_cost data),
                             sessionStatus := td_status data,
                             recommendedTests :=
                               (case td_recommended_tests data of
                                  None \<Rightarrow> recommendedTests st1
                                | Some ts \<Rightarrow> ts),
                             completedTests := (completedTests st1)(testId \<mapsto> result),
                             loading := False\<rparr>, reqs)
                   else (st1\<lparr>error := orElse (td_detail data) ''Failed to submit test result'',
                             loading := False\<rparr>, reqs))"

section \<open>DiagnosisFlow: the final result\<close>

text \<open>\<open>a > b\<close> on two looked-up confidences; a missing one compares false.\<close>

fun gtOpt :: "real option \<Rightarrow> real option \<Rightarrow> bool" where
  "gtOpt (Some x) (Some y) = (x > y)"
| "gtOpt _ _ = False"

text \<open>
  \<open>Object.keys(p).reduce((a, b) => p[a] > p[b] ? a : b)\<close>: without an initial value
  \<open>reduce\<close> throws a \<open>TypeError\<close> on an object with no key (\<open>None\<close> here).
\<close>

definition topLabel :: "predictions \<Rightarrow> string option" where
  "topLabel p =
     (case map fst p of
        [] \<Rightarrow> None
      | k # ks \<Rightarrow> Some (foldl (\<lambda>a b. if gtOpt (map_of p a) (map_of p b) then a else b) k ks))"

text \<open>\<open>Math.max(...Object.values(p))\<close>, evaluated only after \<open>topLabel\<close> has succeeded.\<close>

definition topConfidence :: "predictions \<Rightarrow> real option" where
  "topConfidence p =
     (case map snd p of
        [] \<Rightarrow> None
      | v # vs \<Rightarrow> Some (foldl max v vs))"

text \<open>
  The similar-case lookup inside the inner \<open>try\<close>: the list is replaced only when the
  body carries a \<open>similar_cases\<close> array; a rejected call and an unreadable body are caught
  and logged.
\<close>

definition applySimilar :: "similar_data reply \<Rightarrow> flow \<Rightarrow> flow" where
  "applySimilar simNet st =
     (case simNet of
        FetchRejects _ \<Rightarrow> st
      | BadBody _ _ \<Rightarrow> st
      | Body _ similarData \<Rightarrow>
          (case sim_similar_cases similarData of
             None \<Rightarrow> st
           | Some cs \<Rightarrow> st\<lparr>similarCases := cs\<rparr>))"

text \<open>
  The handler reads \<open>report\<close>, \<open>candidates\<close> and the imaging state from the render it
  was created in, that is from the state it is called with. \<open>now\<close> is
  \<open>new Date().toISOString()\<close>. The query of the result request is kept as the
  contraindication text it encodes.
\<close>

definition getFinalResult ::
  "result_data reply \<Rightarrow> similar_data reply \<Rightarrow> string \<Rightarrow> flow \<Rightarrow> storage \<Rightarrow>
     flow \<times> storage \<times> request list" where
  "getFinalResult net simNet now st ls =
     (if \<not> truthy (sessionId st) then (st, ls, [])
      else
        let sid = orElse (sessionId st) '''';
            st1 = st\<lparr>loading := True\<rparr>;
            queryParams = (if contraindications st \<noteq> [] then Some (contraindications st) else None);
            reqs = [GetResult sid queryParams];
            failed = (\<lambda>s rs. (s\<lparr>error := ''Failed to get results'', loading := False\<rparr>, ls, rs))
        in case net of
             FetchRejects _ \<Rightarrow> failed st1 reqs
           | BadBody _ _ \<Rightarrow> failed st1 reqs
           | Body ok data \<Rightarrow>
               if \<not> ok then (st1\<lparr>loading := False\<rparr>, ls, reqs)
               else
                 let st2 = st1\<lparr>treatment := rd_treatment data,
                               trustworthiness := rd_trustworthiness data,
                               report := rd_report data\<rparr>;
                     symptomsForSearch =
                       (case report st of
                          None \<Rightarrow> map name (take 3 (candidates st))
                        | Some r \<Rightarrow>
                            (case patient_symptoms r of
                               None \<Rightarrow> map name (take 3 (candidates st))
                             | Some syms \<Rightarrow> syms));
                     reqs2 = reqs @ [PostSimilar symptomsForSearch 3];
                     st3 = applySimilar simNet st2;
                     top = (case cnnPredictions st of
                              None \<Rightarrow> Some (None, None)
                            | Some p \<Rightarrow>
                                (case topLabel p of
                                   None \<Rightarrow> None
                                 | Some l \<Rightarrow> Some (Some l, topConfidence p)))
                 in case top of
                      None \<Rightarrow> failed st3 reqs2
                    | Some (topCnn, topConf) \<Rightarrow>
                        let lastAnalysis =
                              \<lparr>ddx_candidates = candidates st,
                               cnn_output = topCnn,
                               cnn_confidence = topConf,
                               la_image_url = imageUrl st,
                               la_gradcam_url = gradcamUrl st,
                               la_predictions = cnnPredictions st,
                               analysis_output =
                                 (case rd_report data of
                                    None \<Rightarrow> ''Diagnosis complete.''
                                  | Some r \<Rightarrow> orElse (summary r) ''Diagnosis complete.''),
                               created_at = now\<rparr>
                        in (st3\<lparr>step := 3, loading := False\<rparr>,
                            ls\<lparr>ls_lastAnalysis := Some (FlowAnalysis lastAnalysis),
                               ls_diagnosisSessionId := None\<rparr>,
                            reqs2))"

section \<open>Example values\<close>

definition exampleCandidate :: candidate where
  "exampleCandidate = \<lparr>disease_id = ''d1'', name = ''Influenza'', base_probability = 0.6\<rparr>"

definition exampleTest :: test where
  "exampleTest = \<lparr>test_id = ''t2'', for_disease = ''d1'', cost_usd = 30\<rparr>"

definition exampleStatus :: status_data where
  "exampleStatus =
     \<lparr>sr_candidates = Some [exampleCandidate],
      sr_recommended_tests = Some [exampleTest],
      sr_completed_tests = Some [''t1'' \<mapsto> ''positive''],
      sr_total_cost = Some 25,
      sr_status = Some ''in_progress''\<rparr>"

definition exampleStart :: start_data where
  "exampleStart =
     \<lparr>sd_session_id = Some ''s2'',
      sd_candidates = Some [exampleCandidate],
      sd_recommended_tests = Some [exampleTest],
      sd_contextual_factors = None,
      sd_detail = None\<rparr>"

definition exampleTestData :: test_data where
  "exampleTestData =
     \<lparr>td_updated_candidates = Some [exampleCandidate],
      td_total_cost = Some 55,
      td_status = Some ''in_progress'',
      td_recommended_tests = Some [],
      td_detail = None\<rparr>"

definition exampleResult :: result_data where
  "exampleResult =
     \<lparr>rd_treatment = Some ''rest and fluids'',
      rd_trustworthiness = Some ''High'',
      rd_report = Some \<lparr>patient_symptoms = Some [''fever''], summary = Some ''Influenza''\<rparr>\<rparr>"

definition exampleSubmit :: submit_data where
  "exampleSubmit =
     \<lparr>sub_case_id = Some ''c7'',
      sub_predictions = None,
      sub_image_url = None,
      sub_gradcam_url = None,
      sub_error = None,
      sub_detail = None\<rparr>"

text \<open>A storage left behind by an earlier upload, with symptoms entered again.\<close>

definition staleStorage :: storage where
  "staleStorage =
     emptyStorage
       \<lparr>ls_symptoms := Some ''fever and cough'',
        ls_cnnPredictions := Some [(''Pneumonia'', 0.8)],
        ls_imageUrl := Some ''/img/1.png'',
        ls_gradcamUrl := Some ''/img/1_cam.png'',
        ls_diagnosisCaseId := Some ''c1'',
        ls_diagnosisSessionId := Some ''s1''\<rparr>"

definition examplePage :: symptoms_page where
  "examplePage =
     \<lparr>sp_symptoms = ''Fever, joint pain'', sp_region = ''Europe'', sp_month = Num 11,
      sp_familyHistory = ''Diabetes , ,Hypertension'',
      sp_geneticVariants = ''rs1800562, rs12345''\<rparr>"

text \<open>
  An upload with an image, and the storage of a visit in which the start of the diagnosis
  failed after that upload and the symptoms were then entered again: the symptoms page
  saved, the upload page stored the imaging items, the flow was mounted and the start call
  was rejected (so nothing was cleaned up), and the symptoms page saved once more.
\<close>

definition exampleImageSubmit :: submit_data where
  "exampleImageSubmit =
     \<lparr>sub_case_id = Some ''c1'',
      sub_predictions = Some [(''Pneumonia'', 0.8)],
      sub_image_url = Some ''/img/1.png'',
      sub_gradcam_url = Some ''/img/1_cam.png'',
      sub_error = None,
      sub_detail = None\<rparr>"

definition noFilePage :: upload_page where
  "noFilePage = \<lparr>up_file = None, up_status = NoStatus, up_loading = False\<rparr>"

definition storageAfterFailedStart :: storage where
  "storageAfterFailedStart =
     (let ls1 = fst (handleSubmit examplePage emptyStorage);
          ls2 = fst (snd (handleUpload (Body True exampleImageSubmit)
                            (noFilePage\<lparr>up_file := Some ''scan.png''\<rparr>) ls1));
          ls3 = fst (snd (mountEffect (FetchRejects '''') (FetchRejects ''Failed to fetch'')
                            initialFlow ls2))
      in fst (handleSubmit examplePage ls3))"

section \<open>Substring search\<close>

lemma str_includes_iff: "str_includes t s \<longleftrightarrow> (\<exists>p q. t = p @ s @ q)"
proof (induction t)
  case Nil
  then show ?case by auto
next
  case (Cons c cs)
  show ?case
  proof
    assume "str_includes (c # cs) s"
    then consider "prefix s (c # cs)" | "str_includes cs s" by auto
    then show "\<exists>p q. c # cs = p @ s @ q"
    proof cases
      case 1
      then obtain q where "c # cs = s @ q" by (auto simp: prefix_def)
      then have "c # cs = [] @ s @ q" by simp
      then show ?thesis by blast
    next
      case 2
      with Cons obtain p q where "cs = p @ s @ q" by blast
      then have "c # cs = (c # p) @ s @ q" by simp
      then show ?thesis by blast
    qed
  next
    assume "\<exists>p q. c # cs = p @ s @ q"
    then obtain p q where pq: "c # cs = p @ s @ q" by blast
    show "str_includes (c # cs) s"
    proof (cases p)
      case Nil
      with pq have "prefix s (c # cs)" by (simp add: prefix_def)
      then show ?thesis by simp
    next
      case (Cons a p')
      with pq have "cs = p' @ s @ q" by simp
      with Cons.IH have "str_includes cs s" by blast
      then show ?thesis by simp
    qed
  qed
qed


section \<open>Properties of the symptom extractor\<close>

lemma extractSymptoms_mem:
  "s \<in> set (extractSymptoms t) \<longleftrightarrow>
     s \<in> set known \<and>
     (str_includes (toLowerCase t) (replace s (CHR ''_'') (CHR '' ''))
      \<or> str_includes (toLowerCase t) s)"
  by (simp add: extractSymptoms_def Let_def)

lemma distinct_known: "distinct known"
  by (simp add: known_def)

text \<open>
  Replacing the first underscore and replacing every underscore agree on sixteen of the
  seventeen codes; \<open>shortness_of_breath\<close> is the only code with two underscores.
\<close>

lemma replace_humanReadable:
  "s \<in> set known \<Longrightarrow> s \<noteq> ''shortness_of_breath'' \<Longrightarrow>
     replace s (CHR ''_'') (CHR '' '') = humanReadable s"
  by (auto simp: known_def humanReadable_def)

lemma replace_shortness_of_breath:
  "replace ''shortness_of_breath'' (CHR ''_'') (CHR '' '') = ''shortness of_breath''"
  by simp

text \<open>
  Claim C1. The extractor should return a vocabulary code exactly when the lowercased text
  contains the code or its human-readable form with the underscores replaced by spaces.
  On the text \<open>Shortness of breath\<close> (one of the quick-symptom buttons of the symptoms
  page) the lowercased text contains the human-readable form of \<open>shortness_of_breath\<close>,
  and the extractor does not return that code: \<open>replace\<close> turns only the first underscore
  into a space.
\<close>

theorem extractSymptoms_misses_shortness_of_breath:
  "str_includes (toLowerCase ''Shortness of breath'') (humanReadable ''shortness_of_breath'')
   \<and> ''shortness_of_breath'' \<in> set known
   \<and> ''shortness_of_breath'' \<notin> set (extractSymptoms ''Shortness of breath'')
   \<and> extractSymptoms ''Shortness of breath'' = []"
  by code_simp

text \<open>
  What holds of the extractor on every text: the result has no duplicates, its elements
  belong to the vocabulary, and the vocabulary has seventeen entries.
\<close>

lemma extractSymptoms_distinct_vocabulary:
  "distinct (extractSymptoms t)
   \<and> set (extractSymptoms t) \<subseteq> set known
   \<and> length known = 17"
proof -
  have d: "distinct (extractSymptoms t)"
    using distinct_known by (simp add: extractSymptoms_def Let_def)
  have v: "set (extractSymptoms t) \<subseteq> set known"
    by (auto simp: extractSymptoms_mem)
  have n: "length known = 17"
    by (simp add: known_def)
  from d v n show ?thesis by blast
qed

text \<open>
  The extractor returns the entries the text matches as specified whenever the two
  readings of \<open>shortness_of_breath\<close> agree on the text.
\<close>

lemma extractSymptoms_specMatches:
  assumes "str_includes (toLowerCase t) ''shortness of_breath''
             = str_includes (toLowerCase t) ''shortness of breath''"
  shows "extractSymptoms t = specMatches t"
proof -
  have h: "humanReadable ''shortness_of_breath'' = ''shortness of breath''"
    by (simp add: humanReadable_def)
  have "str_includes (toLowerCase t) (replace s (CHR ''_'') (CHR '' ''))
          = str_includes (toLowerCase t) (humanReadable s)" if "s \<in> set known" for s
  proof (cases "s = ''shortness_of_breath''")
    case True
    with assms h show ?thesis
      by (simp only: replace_shortness_of_breath)
  next
    case False
    with that show ?thesis
      by (simp add: replace_humanReadable)
  qed
  then show ?thesis
    unfolding extractSymptoms_def specMatches_def Let_def
    by (intro filter_cong) auto
qed

text \<open>
  Claim C3. The extractor should give the empty list for a text that matches no
  vocabulary entry. The text \<open>shortness of_breath\<close> contains no entry and no
  human-readable form of an entry, so it matches nothing as specified, and the extractor
  returns the code \<open>shortness_of_breath\<close> for it: the variant it searches for is the
  entry with only its first underscore replaced.
\<close>

theorem extractSymptoms_unmatched_text_nonempty:
  "specMatches ''shortness of_breath'' = []
   \<and> extractSymptoms ''shortness of_breath'' = [''shortness_of_breath'']"
  by code_simp

section \<open>Properties of the colour helpers\<close>

text \<open>
  Claim C2. The probability colour is the High bucket (red) exactly when \<open>p \<ge> 0.70\<close>, the
  Medium bucket (yellow) exactly when \<open>0.40 \<le> p < 0.70\<close> and the Low bucket (green)
  exactly when \<open>p < 0.40\<close>. The confidence colour gives \<open>High\<close> and \<open>Medium\<close> their own
  styles and every other level the Low style.
\<close>

theorem color_thresholds:
  "(getProbabilityColor p = ''bg-red-500'' \<longleftrightarrow> 0.7 \<le> p)
   \<and> (getProbabilityColor p = ''bg-yellow-500'' \<longleftrightarrow> 0.4 \<le> p \<and> p < 0.7)
   \<and> (getProbabilityColor p = ''bg-green-500'' \<longleftrightarrow> p < 0.4)
   \<and> getConfidenceColor ''High'' = ''text-green-600 bg-green-50 border-green-200''
   \<and> getConfidenceColor ''Medium'' = ''text-yellow-600 bg-yellow-50 border-yellow-200''
   \<and> (level \<noteq> ''High'' \<and> level \<noteq> ''Medium'' \<longrightarrow>
        getConfidenceColor level = ''text-red-600 bg-red-50 border-red-200'')"
  by (simp add: getProbabilityColor_def getConfidenceColor_def)

theorem color_thresholds_witness:
  "getProbabilityColor 0.7 = ''bg-red-500''
   \<and> getProbabilityColor 0.4 = ''bg-yellow-500''
   \<and> getProbabilityColor 0.39 = ''bg-green-500''
   \<and> ''Low'' \<noteq> ''High'' \<and> ''Low'' \<noteq> ''Medium''
   \<and> getConfidenceColor ''Low'' = ''text-red-600 bg-red-50 border-red-200''"
  using color_thresholds [of "0.7" "''Low''"] color_thresholds [of "0.4" "''Low''"]
    color_thresholds [of "0.39" "''Low''"]
  by simp

section \<open>Resuming a session\<close>

lemma resume_ok:
  "resumeSession (Body True data) startNet sid st ls =
     (st\<lparr>loading := False, error := '''', sessionId := Some sid,
         candidates := orEmpty (sr_candidates data),
         recommendedTests := orEmpty (sr_recommended_tests data),
         completedTests := (case sr_completed_tests data of None \<Rightarrow> Map.empty | Some m \<Rightarrow> m),
         totalCost := orZero (sr_total_cost data),
         sessionStatus := Some (orElse (sr_status data) ''in_progress''),
         step := 2\<rparr>, ls, [GetStatus sid])"
  by (simp add: resumeSession_def Let_def)

text \<open>
  Claim C4. On a successful status response that carries the four fields, resuming sets
  the candidates, the recommended tests, the completed tests and the total cost to the
  fields of the response, whatever the state held before: the cost is assigned, not
  added. The only request issued is the status request, and storage is not touched. A
  field the response lacks gives the empty default, again independent of the old state.
\<close>

theorem resume_restores_server_view:
  "(sr_candidates data = Some cs \<longrightarrow>
      candidates (fst (resumeSession (Body True data) startNet sid st ls)) = cs)
   \<and> (sr_recommended_tests data = Some ts \<longrightarrow>
      recommendedTests (fst (resumeSession (Body True data) startNet sid st ls)) = ts)
   \<and> (sr_completed_tests data = Some finished \<longrightarrow>
      completedTests (fst (resumeSession (Body True data) startNet sid st ls)) = finished)
   \<and> (sr_total_cost data = Some cost \<longrightarrow>
      totalCost (fst (resumeSession (Body True data) startNet sid st ls)) = cost)
   \<and> candidates (fst (resumeSession (Body True data) startNet sid st ls))
       = candidates (fst (resumeSession (Body True data) startNet2 sid st2 ls2))
   \<and> recommendedTests (fst (resumeSession (Body True data) startNet sid st ls))
       = recommendedTests (fst (resumeSession (Body True data) startNet2 sid st2 ls2))
   \<and> completedTests (fst (resumeSession (Body True data) startNet sid st ls))
       = completedTests (fst (resumeSession (Body True data) startNet2 sid st2 ls2))
   \<and> totalCost (fst (resumeSession (Body True data) startNet sid st ls))
       = totalCost (fst (resumeSession (Body True data) startNet2 sid st2 ls2))
   \<and> sessionId (fst (resumeSession (Body True data) startNet sid st ls)) = Some sid
   \<and> step (fst (resumeSession (Body True data) startNet sid st ls)) = 2
   \<and> snd (resumeSession (Body True data) startNet sid st ls) = (ls, [GetStatus sid])"
  by (simp add: resume_ok orEmpty_def orZero_def)

theorem resume_restores_server_view_witness:
  "totalCost (fst (resumeSession (Body True exampleStatus) (FetchRejects '''') ''s1''
       (initialFlow\<lparr>totalCost := 25\<rparr>) emptyStorage)) = 25
   \<and> candidates (fst (resumeSession (Body True exampleStatus) (FetchRejects '''') ''s1''
       (initialFlow\<lparr>totalCost := 25\<rparr>) emptyStorage)) = [exampleCandidate]
   \<and> recommendedTests (fst (resumeSession (Body True exampleStatus) (FetchRejects '''') ''s1''
       (initialFlow\<lparr>totalCost := 25\<rparr>) emptyStorage)) = [exampleTest]
   \<and> completedTests (fst (resumeSession (Body True exampleStatus) (FetchRejects '''') ''s1''
       (initialFlow\<lparr>totalCost := 25\<rparr>) emptyStorage)) = [''t1'' \<mapsto> ''positive'']"
proof -
  have c: "sr_candidates exampleStatus = Some [exampleCandidate]"
    and t: "sr_recommended_tests exampleStatus = Some [exampleTest]"
    and d: "sr_completed_tests exampleStatus = Some [''t1'' \<mapsto> ''positive'']"
    and k: "sr_total_cost exampleStatus = Some 25"
    by (simp_all add: exampleStatus_def)
  from c t d k
    resume_restores_server_view
      [where data = exampleStatus and cs = "[exampleCandidate]" and ts = "[exampleTest]"
         and finished = "[''t1'' \<mapsto> ''positive'']" and cost = 25
         and startNet = "FetchRejects ''''" and sid = "''s1''"
         and st = "initialFlow\<lparr>totalCost := 25\<rparr>" and ls = emptyStorage]
  show ?thesis by blast
qed

lemma resume_not_ok_no_symptoms:
  assumes "net = Body False data \<or> net = BadBody False msg"
    and "\<not> truthy (ls_symptoms ls)"
  shows "resumeSession net startNet sid st ls =
     (st\<lparr>loading := False, error := ''''\<rparr>, ls\<lparr>ls_diagnosisSessionId := None\<rparr>, [GetStatus sid])"
  using assms by (auto simp: resumeSession_def Let_def)

lemma resume_not_ok_restart:
  assumes "net = Body False data \<or> net = BadBody False msg"
    and "ls_symptoms ls = Some s" and "s \<noteq> []"
  shows "resumeSession net startNet sid st ls =
     (case startDiagnosis startNet s None None None None
             (st\<lparr>loading := True, error := ''''\<rparr>) (ls\<lparr>ls_diagnosisSessionId := None\<rparr>) of
        (st2, ls2, reqs2) \<Rightarrow> (st2\<lparr>loading := False\<rparr>, ls2, GetStatus sid # reqs2))"
  using assms by (auto simp: resumeSession_def Let_def truthy_def orElse_def)

lemma startDiagnosis_requests:
  "snd (snd (startDiagnosis net text cnn img gcam cs st ls))
     = [PostStart (startRequest ls text cnn img gcam cs)]"
  by (simp add: startDiagnosis_def Let_def split: reply.splits)

lemma startDiagnosis_session_key:
  "ls_diagnosisSessionId (fst (snd (startDiagnosis net text cnn img gcam cs st ls)))
     = (case net of
          Body ok d \<Rightarrow> if ok then Some (stringOf (sd_session_id d)) else ls_diagnosisSessionId ls
        | _ \<Rightarrow> ls_diagnosisSessionId ls)"
  by (simp add: startDiagnosis_def Let_def split: reply.splits)

lemma startRequest_session_key:
  "startRequest (ls\<lparr>ls_diagnosisSessionId := k\<rparr>) text cnn img gcam cs
     = startRequest ls text cnn img gcam cs"
  by (simp add: startRequest_def)

lemma resume_error:
  assumes "net = FetchRejects msg \<or> net = BadBody True msg"
  shows "resumeSession net startNet sid st ls =
     (st\<lparr>loading := False, error := ''Could not resume session: '' @ msg\<rparr>,
      ls\<lparr>ls_diagnosisSessionId := None\<rparr>, [GetStatus sid])"
  using assms by (auto simp: resumeSession_def Let_def)

text \<open>
  Claim C5 as stated: whenever the status request does not succeed or errors, the client
  removes the stored session id and restarts the diagnosis from the stored symptoms. With
  symptoms in storage and a status request that rejects, the only request issued is the
  status request: no diagnosis is started.
\<close>

theorem resume_error_restart_counterexample:
  "ls_symptoms staleStorage = Some ''fever and cough''
   \<and> snd (snd (resumeSession (FetchRejects ''Failed to fetch'') (Body True exampleStart) ''s1''
         initialFlow staleStorage)) = [GetStatus ''s1'']
   \<and> ls_diagnosisSessionId (fst (snd (resumeSession (FetchRejects ''Failed to fetch'')
         (Body True exampleStart) ''s1'' initialFlow staleStorage))) = None
   \<and> sessionId (fst (resumeSession (FetchRejects ''Failed to fetch'') (Body True exampleStart)
         ''s1'' initialFlow staleStorage)) = None"
  by (simp add: resume_error staleStorage_def emptyStorage_def initialFlow_def)

text \<open>
  Claim C5, amended. When the status request gets a response that is not a success, the
  client removes the stored session id and, when symptoms are stored, restarts the
  diagnosis from them: it issues one start request built from the stored text without
  imaging data, and the stored session id afterwards is the one of the new session if the
  start succeeds and absent otherwise. With no stored symptoms it only removes the id.
  When the status request itself errors (the call rejects or the body of a success
  response cannot be read), the client removes the stored session id and shows an error
  message; it issues no start request.
\<close>

theorem resume_failure_handling:
  "((net = Body False data \<or> net = BadBody False msg) \<and> ls_symptoms ls = Some s \<and> s \<noteq> [] \<longrightarrow>
       snd (snd (resumeSession net startNet sid st ls))
         = [GetStatus sid, PostStart (startRequest ls s None None None None)]
       \<and> symptoms (startRequest ls s None None None None) = extractSymptoms s
       \<and> ls_diagnosisSessionId (fst (snd (resumeSession net startNet sid st ls)))
           = (case startNet of
                Body ok d \<Rightarrow> if ok then Some (stringOf (sd_session_id d)) else None
              | _ \<Rightarrow> None))
   \<and> ((net = Body False data \<or> net = BadBody False msg) \<and> \<not> truthy (ls_symptoms ls) \<longrightarrow>
       snd (resumeSession net startNet sid st ls)
         = (ls\<lparr>ls_diagnosisSessionId := None\<rparr>, [GetStatus sid]))
   \<and> (net = FetchRejects msg \<or> net = BadBody True msg \<longrightarrow>
       snd (resumeSession net startNet sid st ls)
         = (ls\<lparr>ls_diagnosisSessionId := None\<rparr>, [GetStatus sid])
       \<and> error (fst (resumeSession net startNet sid st ls)) = ''Could not resume session: '' @ msg
       \<and> sessionId (fst (resumeSession net startNet sid st ls)) = sessionId st)"
proof -
  have a: "snd (snd (resumeSession net startNet sid st ls))
         = [GetStatus sid, PostStart (startRequest ls s None None None None)]
       \<and> symptoms (startRequest ls s None None None None) = extractSymptoms s
       \<and> ls_diagnosisSessionId (fst (snd (resumeSession net startNet sid st ls)))
           = (case startNet of
                Body ok d \<Rightarrow> if ok then Some (stringOf (sd_session_id d)) else None
              | _ \<Rightarrow> None)"
    if n: "net = Body False data \<or> net = BadBody False msg"
      and s: "ls_symptoms ls = Some s" "s \<noteq> []"
  proof -
    let ?r = "startDiagnosis startNet s None None None None
             (st\<lparr>loading := True, error := ''''\<rparr>) (ls\<lparr>ls_diagnosisSessionId := None\<rparr>)"
    have e: "resumeSession net startNet sid st ls =
        (case ?r of (st2, ls2, reqs2) \<Rightarrow> (st2\<lparr>loading := False\<rparr>, ls2, GetStatus sid # reqs2))"
      using resume_not_ok_restart [OF n s] .
    have r: "snd (snd ?r) = [PostStart (startRequest ls s None None None None)]"
      by (simp add: startDiagnosis_requests startRequest_session_key)
    have k: "ls_diagnosisSessionId (fst (snd ?r))
           = (case startNet of
                Body ok d \<Rightarrow> if ok then Some (stringOf (sd_session_id d)) else None
              | _ \<Rightarrow> None)"
      by (simp add: startDiagnosis_session_key split: reply.splits)
    have y: "symptoms (startRequest ls s None None None None) = extractSymptoms s"
      by (simp add: startRequest_def)
    from e r k y show ?thesis
      by (cases ?r) simp
  qed
  have b: "snd (resumeSession net startNet sid st ls)
         = (ls\<lparr>ls_diagnosisSessionId := None\<rparr>, [GetStatus sid])"
    if "net = Body False data \<or> net = BadBody False msg" and "\<not> truthy (ls_symptoms ls)"
    using resume_not_ok_no_symptoms [OF that] by simp
  have c: "snd (resumeSession net startNet sid st ls)
         = (ls\<lparr>ls_diagnosisSessionId := None\<rparr>, [GetStatus sid])
       \<and> error (fst (resumeSession net startNet sid st ls)) = ''Could not resume session: '' @ msg
       \<and> sessionId (fst (resumeSession net startNet sid st ls)) = sessionId st"
    if "net = FetchRejects msg \<or> net = BadBody True msg"
    using resume_error [OF that] by simp
  from a b c show ?thesis by blast
qed

theorem resume_failure_handling_witness:
  "snd (snd (resumeSession (Body False exampleStatus) (Body True exampleStart) ''s1''
       initialFlow staleStorage))
     = [GetStatus ''s1'', PostStart (startRequest staleStorage ''fever and cough'' None None None None)]
   \<and> symptoms (startRequest staleStorage ''fever and cough'' None None None None)
       = [''fever'', ''cough'']
   \<and> ls_diagnosisSessionId (fst (snd (resumeSession (Body False exampleStatus)
         (Body True exampleStart) ''s1'' initialFlow staleStorage))) = Some ''s2''
   \<and> snd (resumeSession (Body False exampleStatus) (Body True exampleStart) ''s1''
         initialFlow emptyStorage) = (emptyStorage, [GetStatus ''s1''])
   \<and> snd (resumeSession (FetchRejects ''Failed to fetch'') (Body True exampleStart) ''s1''
         initialFlow staleStorage)
       = (staleStorage\<lparr>ls_diagnosisSessionId := None\<rparr>, [GetStatus ''s1''])
   \<and> error (fst (resumeSession (FetchRejects ''Failed to fetch'') (Body True exampleStart) ''s1''
         initialFlow staleStorage)) = ''Could not resume session: Failed to fetch''"
proof -
  have s: "ls_symptoms staleStorage = Some ''fever and cough''"
    by (simp add: staleStorage_def)
  have n: "\<not> truthy (ls_symptoms emptyStorage)"
    by (simp add: truthy_def emptyStorage_def)
  have x: "extractSymptoms ''fever and cough'' = [''fever'', ''cough'']"
    by code_simp
  have i: "stringOf (sd_session_id exampleStart) = ''s2''"
    by (simp add: stringOf_def exampleStart_def)
  have e: "emptyStorage\<lparr>ls_diagnosisSessionId := None\<rparr> = emptyStorage"
    by (simp add: emptyStorage_def)
  from s x i
    resume_failure_handling
      [where net = "Body False exampleStatus" and data = exampleStatus and ls = staleStorage
         and s = "''fever and cough''" and startNet = "Body True exampleStart" and sid = "''s1''"
         and st = initialFlow]
  have a: "snd (snd (resumeSession (Body False exampleStatus) (Body True exampleStart) ''s1''
       initialFlow staleStorage))
     = [GetStatus ''s1'', PostStart (startRequest staleStorage ''fever and cough'' None None None None)]
   \<and> symptoms (startRequest staleStorage ''fever and cough'' None None None None)
       = [''fever'', ''cough'']
   \<and> ls_diagnosisSessionId (fst (snd (resumeSession (Body False exampleStatus)
         (Body True exampleStart) ''s1'' initialFlow staleStorage))) = Some ''s2''"
    by simp
  from n e
    resume_failure_handling
      [where net = "Body False exampleStatus" and data = exampleStatus and ls = emptyStorage
         and startNet = "Body True exampleStart" and sid = "''s1''" and st = initialFlow]
  have b: "snd (resumeSession (Body False exampleStatus) (Body True exampleStart) ''s1''
         initialFlow emptyStorage) = (emptyStorage, [GetStatus ''s1''])"
    by simp
  from resume_failure_handling
      [where net = "FetchRejects ''Failed to fetch''" and msg = "''Failed to fetch''"
         and ls = staleStorage and startNet = "Body True exampleStart" and sid = "''s1''"
         and st = initialFlow]
  have c: "snd (resumeSession (FetchRejects ''Failed to fetch'') (Body True exampleStart) ''s1''
         initialFlow staleStorage)
       = (staleStorage\<lparr>ls_diagnosisSessionId := None\<rparr>, [GetStatus ''s1''])
   \<and> error (fst (resumeSession (FetchRejects ''Failed to fetch'') (Body True exampleStart) ''s1''
         initialFlow staleStorage)) = ''Could not resume session: Failed to fetch''"
    by simp
  from a b c show ?thesis by blast
qed

section \<open>Client-side validation of a start submission\<close>

text \<open>
  Claim C6. With no file selected and no symptoms stored (the key missing or holding the
  empty text), the upload handler sets the validation message and returns: no request is
  issued, storage is unchanged and the page does not navigate. The skip-scan handler
  refuses in the same way whenever no symptoms are stored.
\<close>

theorem submission_without_input_rejected:
  "(up_file pg = None \<and> (ls_symptoms ls = None \<or> ls_symptoms ls = Some '''') \<longrightarrow>
      handleUpload net pg ls = (pg\<lparr>up_status := NeedInput\<rparr>, ls, [], False))
   \<and> (ls_symptoms ls = None \<or> ls_symptoms ls = Some '''' \<longrightarrow>
      handleSkipScan net pg ls = (pg\<lparr>up_status := NoSymptomsSaved\<rparr>, ls, [], False))"
  by (auto simp: handleUpload_def handleSkipScan_def truthy_def orElse_def Let_def)

theorem submission_without_input_rejected_witness:
  "handleUpload (Body True exampleSubmit)
       \<lparr>up_file = None, up_status = NoStatus, up_loading = False\<rparr> emptyStorage
     = (\<lparr>up_file = None, up_status = NeedInput, up_loading = False\<rparr>, emptyStorage, [], False)
   \<and> handleSkipScan (Body True exampleSubmit)
       \<lparr>up_file = None, up_status = NoStatus, up_loading = False\<rparr>
       (emptyStorage\<lparr>ls_symptoms := Some ''''\<rparr>)
     = (\<lparr>up_file = None, up_status = NoSymptomsSaved, up_loading = False\<rparr>,
        emptyStorage\<lparr>ls_symptoms := Some ''''\<rparr>, [], False)"
proof -
  have n: "ls_symptoms emptyStorage = None"
    by (simp add: emptyStorage_def)
  from n
    submission_without_input_rejected
      [where pg = "\<lparr>up_file = None, up_status = NoStatus, up_loading = False\<rparr>"
         and ls = emptyStorage and net = "Body True exampleSubmit"]
    submission_without_input_rejected
      [where pg = "\<lparr>up_file = None, up_status = NoStatus, up_loading = False\<rparr>"
         and ls = "emptyStorage\<lparr>ls_symptoms := Some ''''\<rparr>" and net = "Body True exampleSubmit"]
  show ?thesis by simp
qed

lemma handleUpload_issues_request:
  "up_file pg \<noteq> None \<or> truthy (ls_symptoms ls) \<Longrightarrow>
     snd (snd (handleUpload net pg ls))
       = ([PostSubmit \<lparr>fd_name = ''Anonymous Patient'', fd_symptoms = orElse (ls_symptoms ls) '''',
                       fd_image = up_file pg\<rparr>],
          (case net of Body ok _ \<Rightarrow> ok | _ \<Rightarrow> False))"
  by (auto simp: handleUpload_def truthy_def orElse_def Let_def split: reply.splits option.splits)

section \<open>Submitting a test result\<close>

lemma submit_ok:
  "sessionId st = Some sid \<Longrightarrow> sid \<noteq> [] \<Longrightarrow>
     submitTestResult (Body True data) testId result st =
       (st\<lparr>loading := False,
           candidates := orEmpty (td_updated_candidates data),
           totalCost := orZero (td_total_cost data),
           sessionStatus := td_status data,
           recommendedTests :=
             (case td_recommended_tests data of None \<Rightarrow> recommendedTests st | Some ts \<Rightarrow> ts),
           completedTests := (completedTests st)(testId \<mapsto> result)\<rparr>,
        [PostTestResult sid testId result])"
  by (cases "td_recommended_tests data") (simp_all add: submitTestResult_def Let_def)

text \<open>
  Claim C9. After a successful submission (a session is open and the response is a
  success), the completed-tests mapping maps the submitted test id to the submitted
  outcome, every entry recorded for another test id is unchanged (so the old mapping is
  contained in the new one when the test had no entry before), and the recommended slate
  is the slate the response carries.
\<close>

theorem submit_records_outcome:
  "sessionId st = Some sid \<and> sid \<noteq> [] \<longrightarrow>
     completedTests (fst (submitTestResult (Body True data) testId result st)) testId = Some result
     \<and> (\<forall>k. k \<noteq> testId \<longrightarrow>
           completedTests (fst (submitTestResult (Body True data) testId result st)) k
             = completedTests st k)
     \<and> (testId \<notin> dom (completedTests st) \<longrightarrow>
           completedTests st \<subseteq>\<^sub>m completedTests (fst (submitTestResult (Body True data) testId result st)))
     \<and> (td_recommended_tests data = Some ts \<longrightarrow>
           recommendedTests (fst (submitTestResult (Body True data) testId result st)) = ts)
     \<and> snd (submitTestResult (Body True data) testId result st) = [PostTestResult sid testId result]"
  by (auto simp: submit_ok map_le_def)

theorem submit_records_outcome_witness:
  "completedTests (fst (submitTestResult (Body True exampleTestData) ''t2'' ''negative''
       (initialFlow\<lparr>sessionId := Some ''s1'', recommendedTests := [exampleTest],
                    completedTests := [''t1'' \<mapsto> ''positive'']\<rparr>))) ''t2'' = Some ''negative''
   \<and> completedTests (fst (submitTestResult (Body True exampleTestData) ''t2'' ''negative''
       (initialFlow\<lparr>sessionId := Some ''s1'', recommendedTests := [exampleTest],
                    completedTests := [''t1'' \<mapsto> ''positive'']\<rparr>))) ''t1'' = Some ''positive''
   \<and> recommendedTests (fst (submitTestResult (Body True exampleTestData) ''t2'' ''negative''
       (initialFlow\<lparr>sessionId := Some ''s1'', recommendedTests := [exampleTest],
                    completedTests := [''t1'' \<mapsto> ''positive'']\<rparr>))) = []"
proof -
  have r: "td_recommended_tests exampleTestData = Some []"
    by (simp add: exampleTestData_def)
  from r
    submit_records_outcome
      [where st = "initialFlow\<lparr>sessionId := Some ''s1'', recommendedTests := [exampleTest],
                    completedTests := [''t1'' \<mapsto> ''positive'']\<rparr>"
         and sid = "''s1''" and data = exampleTestData and testId = "''t2''"
         and result = "''negative''" and ts = "[]"]
  show ?thesis by simp
qed

section \<open>The final result\<close>

lemma applySimilar_failed:
  "simNet = FetchRejects m \<or> simNet = BadBody b m
     \<or> (simNet = Body b sd \<and> sim_similar_cases sd = None) \<Longrightarrow>
   applySimilar simNet st = st"
  by (auto simp: applySimilar_def)

lemma applySimilar_fields:
  "treatment (applySimilar simNet st) = treatment st"
  "trustworthiness (applySimilar simNet st) = trustworthiness st"
  "report (applySimilar simNet st) = report st"
  "error (applySimilar simNet st) = error st"
  by (simp_all add: applySimilar_def split: reply.splits option.splits)

lemma topLabel_nonempty: "p \<noteq> [] \<Longrightarrow> topLabel p \<noteq> None"
  by (cases p) (simp_all add: topLabel_def)

lemma getFinalResult_ok:
  assumes "truthy (sessionId st)" and "cnnPredictions st \<noteq> Some []"
  shows "fst (getFinalResult (Body True data) simNet now st ls)
     = (applySimilar simNet
          (st\<lparr>loading := True, treatment := rd_treatment data,
              trustworthiness := rd_trustworthiness data, report := rd_report data\<rparr>))
        \<lparr>step := 3, loading := False\<rparr>"
proof (cases "cnnPredictions st")
  case None
  with assms show ?thesis
    by (simp add: getFinalResult_def Let_def)
next
  case (Some p)
  with assms have "p \<noteq> []" by simp
  then obtain l where "topLabel p = Some l"
    using topLabel_nonempty by blast
  with Some assms show ?thesis
    by (simp add: getFinalResult_def Let_def)
qed

text \<open>
  Claim C7. Take a run of the final-result flow with an open session in which the result
  response succeeds, and let the similar-case lookup fail: the call rejects, the body
  cannot be read, or the body carries no list of cases. Then the treatment, the
  trustworthiness and the report are set from the response, the flow is on step 3, no
  error is recorded, and the similar-cases list is what it was before (empty when it was
  empty, as it is until a lookup succeeds). The imaging predictions held by the flow are
  absent or have at least one label, as the upload page stores them.
\<close>

theorem final_result_survives_similar_failure:
  "truthy (sessionId st) \<and> cnnPredictions st \<noteq> Some []
   \<and> (simNet = FetchRejects m \<or> simNet = BadBody b m
        \<or> (simNet = Body b sd \<and> sim_similar_cases sd = None)) \<longrightarrow>
     treatment (fst (getFinalResult (Body True data) simNet now st ls)) = rd_treatment data
     \<and> trustworthiness (fst (getFinalResult (Body True data) simNet now st ls))
         = rd_trustworthiness data
     \<and> report (fst (getFinalResult (Body True data) simNet now st ls)) = rd_report data
     \<and> step (fst (getFinalResult (Body True data) simNet now st ls)) = 3
     \<and> loading (fst (getFinalResult (Body True data) simNet now st ls)) = False
     \<and> error (fst (getFinalResult (Body True data) simNet now st ls)) = error st
     \<and> similarCases (fst (getFinalResult (Body True data) simNet now st ls)) = similarCases st
     \<and> (similarCases st = [] \<longrightarrow>
          similarCases (fst (getFinalResult (Body True data) simNet now st ls)) = [])"
proof (intro impI)
  assume h: "truthy (sessionId st) \<and> cnnPredictions st \<noteq> Some []
   \<and> (simNet = FetchRejects m \<or> simNet = BadBody b m
        \<or> (simNet = Body b sd \<and> sim_similar_cases sd = None))"
  then have e: "fst (getFinalResult (Body True data) simNet now st ls)
     = (st\<lparr>loading := True, treatment := rd_treatment data,
              trustworthiness := rd_trustworthiness data, report := rd_report data\<rparr>)
        \<lparr>step := 3, loading := False\<rparr>"
    using getFinalResult_ok [of st data simNet now ls]
      applySimilar_failed [of simNet m b sd]
    by simp
  show "treatment (fst (getFinalResult (Body True data) simNet now st ls)) = rd_treatment data
     \<and> trustworthiness (fst (getFinalResult (Body True data) simNet now st ls))
         = rd_trustworthiness data
     \<and> report (fst (getFinalResult (Body True data) simNet now st ls)) = rd_report data
     \<and> step (fst (getFinalResult (Body True data) simNet now st ls)) = 3
     \<and> loading (fst (getFinalResult (Body True data) simNet now st ls)) = False
     \<and> error (fst (getFinalResult (Body True data) simNet now st ls)) = error st
     \<and> similarCases (fst (getFinalResult (Body True data) simNet now st ls)) = similarCases st
     \<and> (similarCases st = [] \<longrightarrow>
          similarCases (fst (getFinalResult (Body True data) simNet now st ls)) = [])"
    by (simp add: e)
qed

theorem final_result_survives_similar_failure_witness:
  "treatment (fst (getFinalResult (Body True exampleResult) (FetchRejects ''Failed to fetch'')
       ''2026-01-01T00:00:00.000Z''
       (initialFlow\<lparr>sessionId := Some ''s1'', step := 2,
                    cnnPredictions := Some [(''Pneumonia'', 0.8)]\<rparr>) emptyStorage))
     = Some ''rest and fluids''
   \<and> report (fst (getFinalResult (Body True exampleResult) (FetchRejects ''Failed to fetch'')
       ''2026-01-01T00:00:00.000Z''
       (initialFlow\<lparr>sessionId := Some ''s1'', step := 2,
                    cnnPredictions := Some [(''Pneumonia'', 0.8)]\<rparr>) emptyStorage))
     = rd_report exampleResult
   \<and> step (fst (getFinalResult (Body True exampleResult) (FetchRejects ''Failed to fetch'')
       ''2026-01-01T00:00:00.000Z''
       (initialFlow\<lparr>sessionId := Some ''s1'', step := 2,
                    cnnPredictions := Some [(''Pneumonia'', 0.8)]\<rparr>) emptyStorage)) = 3
   \<and> similarCases (fst (getFinalResult (Body True exampleResult) (FetchRejects ''Failed to fetch'')
       ''2026-01-01T00:00:00.000Z''
       (initialFlow\<lparr>sessionId := Some ''s1'', step := 2,
                    cnnPredictions := Some [(''Pneumonia'', 0.8)]\<rparr>) emptyStorage)) = []"
proof -
  have s: "truthy (sessionId (initialFlow\<lparr>sessionId := Some ''s1'', step := 2,
                    cnnPredictions := Some [(''Pneumonia'', 0.8)]\<rparr>))"
    by (simp add: truthy_def)
  have c: "cnnPredictions (initialFlow\<lparr>sessionId := Some ''s1'', step := 2,
                    cnnPredictions := Some [(''Pneumonia'', 0.8)]\<rparr>) \<noteq> Some []"
    by simp
  have z: "similarCases (initialFlow\<lparr>sessionId := Some ''s1'', step := 2,
                    cnnPredictions := Some [(''Pneumonia'', 0.8)]\<rparr>) = []"
    by (simp add: initialFlow_def)
  have t: "rd_treatment exampleResult = Some ''rest and fluids''"
    by (simp add: exampleResult_def)
  from s c z t
    final_result_survives_similar_failure
      [where st = "initialFlow\<lparr>sessionId := Some ''s1'', step := 2,
                    cnnPredictions := Some [(''Pneumonia'', 0.8)]\<rparr>"
         and simNet = "FetchRejects ''Failed to fetch''" and m = "''Failed to fetch''"
         and data = exampleResult and now = "''2026-01-01T00:00:00.000Z''" and ls = emptyStorage]
  show ?thesis by simp
qed

text \<open>
  The predictions in storage never become an object without labels: the upload page
  stores them only when there is at least one, and the flow loads them from storage.
\<close>

lemma storeUpload_predictions_nonempty:
  "ls_cnnPredictions ls \<noteq> Some [] \<Longrightarrow> ls_cnnPredictions (storeUpload data ls) \<noteq> Some []"
  by (auto simp: storeUpload_def split: option.splits)

lemma handleUpload_predictions_nonempty:
  "ls_cnnPredictions ls \<noteq> Some [] \<Longrightarrow>
     ls_cnnPredictions (fst (snd (handleUpload net pg ls))) \<noteq> Some []"
  using storeUpload_predictions_nonempty
  by (auto simp: handleUpload_def Let_def split: reply.splits)

lemma startDiagnosis_predictions:
  "cnnPredictions (fst (startDiagnosis net text cnn img gcam cs st ls)) = cnnPredictions st"
  by (simp add: startDiagnosis_def Let_def split: reply.splits)

lemma resumeSession_predictions:
  "cnnPredictions (fst (resumeSession net startNet sid st ls)) = cnnPredictions st"
proof -
  have "cnnPredictions (fst (case startDiagnosis startNet tx None None None None st1 ls1 of
            (st2, ls2, reqs2) \<Rightarrow> (st2\<lparr>loading := False\<rparr>, ls2, GetStatus sid # reqs2)))
          = cnnPredictions st1" for tx st1 ls1
    using startDiagnosis_predictions [of startNet tx None None None None st1 ls1]
    by (cases "startDiagnosis startNet tx None None None None st1 ls1") simp
  then show ?thesis
    by (simp add: resumeSession_def Let_def split: reply.splits)
qed

lemma mountEffect_predictions_nonempty:
  assumes "ls_cnnPredictions ls \<noteq> Some []" and "cnnPredictions st \<noteq> Some []"
  shows "cnnPredictions (fst (mountEffect net startNet st ls)) \<noteq> Some []"
  using assms
  by (auto simp: mountEffect_def Let_def resumeSession_predictions startDiagnosis_predictions
      split: option.splits)

section \<open>Trimming and splitting\<close>

lemma trim_Nil: "trim [] = []"
  by (simp add: trim_def)

lemma trim_ends:
  assumes "trim s \<noteq> []"
  shows "\<not> isWhite (hd (trim s))" and "\<not> isWhite (last (trim s))"
proof -
  let ?u = "dropWhile isWhite s"
  let ?v = "dropWhile isWhite (rev ?u)"
  from assms have v: "?v \<noteq> []"
    by (simp add: trim_def)
  then have hv: "\<not> isWhite (hd ?v)"
    by (rule hd_dropWhile)
  have u: "?u \<noteq> []"
  proof
    assume e: "?u = []"
    have "?v = []"
      unfolding e by simp
    with v show False
      by simp
  qed
  then have hu: "\<not> isWhite (hd ?u)"
    by (rule hd_dropWhile)
  from v have "hd ?v \<in> set ?v"
    by simp
  then have m: "hd ?v \<in> set (rev ?u)"
    using set_dropWhileD by fastforce
  from m hv have "last ?v = last (rev ?u)"
    by (rule dropWhile_last)
  with u have "last ?v = hd ?u"
    by (simp add: last_rev)
  with hu v show "\<not> isWhite (hd (trim s))"
    by (simp add: trim_def hd_rev)
  from hv v show "\<not> isWhite (last (trim s))"
    by (simp add: trim_def last_rev)
qed

lemma trim_fixed:
  assumes "t = [] \<or> (\<not> isWhite (hd t) \<and> \<not> isWhite (last t))"
  shows "trim t = t"
proof (cases "t = []")
  case True
  then show ?thesis by (simp add: trim_Nil)
next
  case False
  with assms have h: "\<not> isWhite (hd t)" and l: "\<not> isWhite (last t)"
    by simp_all
  from h have a: "dropWhile isWhite t = t"
    by (simp add: dropWhile_eq_self_iff)
  from l False have b: "dropWhile isWhite (rev t) = rev t"
    by (simp add: dropWhile_eq_self_iff hd_rev)
  from a b show ?thesis
    by (simp add: trim_def)
qed

lemma trim_idem: "trim (trim s) = trim s"
  using trim_ends [of s] by (intro trim_fixed) blast

lemma str_split_nonempty: "str_split s c \<noteq> []"
  by (induction s) (auto split: list.splits)

lemma str_split_no_separator: "w \<in> set (str_split s c) \<Longrightarrow> c \<notin> set w"
proof (induction s arbitrary: w)
  case Nil
  then show ?case by simp
next
  case (Cons a s)
  show ?case
  proof (cases "a = c")
    case True
    with Cons show ?thesis by auto
  next
    case False
    obtain v vs where s: "str_split s c = v # vs"
      using str_split_nonempty [of s c] by (cases "str_split s c") auto
    with False Cons.prems have "w = a # v \<or> w \<in> set vs"
      by simp
    then show ?thesis
    proof
      assume "w = a # v"
      moreover have "c \<notin> set v"
        using Cons.IH [of v] s by simp
      ultimately show ?thesis
        using False by auto
    next
      assume "w \<in> set vs"
      then show ?thesis
        using Cons.IH [of w] s by simp
    qed
  qed
qed

lemma commaTerms_elements:
  assumes "x \<in> set (commaTerms stored)"
  shows "x \<noteq> [] \<and> trim x = x
     \<and> (\<exists>s piece. stored = Some s \<and> piece \<in> set (str_split s (CHR '','')) \<and> x = trim piece)"
proof -
  from assms obtain s where s: "stored = Some s" "s \<noteq> []"
    and x: "x \<in> set (filter (\<lambda>x. x \<noteq> []) (map trim (str_split s (CHR '',''))))"
    by (auto simp: commaTerms_def split: option.splits if_splits)
  from x obtain piece where p: "piece \<in> set (str_split s (CHR '',''))" "x = trim piece" "x \<noteq> []"
    by auto
  from p have "trim x = x"
    by (simp add: trim_idem)
  with s p show ?thesis
    by blast
qed

section \<open>The month selector\<close>

lemma monthOptions_values: "monthOptions = [1, 2, 3, 4, 5, 6, 7, 8, 9, 10, 11, 12]"
  by code_simp

lemma month_roundtrip:
  "\<forall>m \<in> set monthOptions. parseInt (toString (Num m)) = Num m \<and> 1 \<le> m \<and> m \<le> 12
      \<and> toString (Num m) \<noteq> []"
  by code_simp

lemma initialMonth_option: "g < 12 \<Longrightarrow> initialMonth g \<in> Num ` set monthOptions"
proof -
  assume "g < 12"
  then have "g \<in> set [0..<12]" by simp
  then have "int g + 1 \<in> set monthOptions"
    unfolding monthOptions_def by (simp only: set_map image_eqI)
  then show ?thesis
    by (simp add: initialMonth_def)
qed

section \<open>The start request\<close>

lemma startRequest_month_selected:
  assumes "m \<in> set monthOptions" and "ls_symptomMonth ls = Some (toString (Num m))"
  shows "month (startRequest ls tx cnn img gcam cs) = Some (Num m) \<and> 1 \<le> m \<and> m \<le> 12"
proof -
  from assms(1) month_roundtrip
  have r: "parseInt (toString (Num m)) = Num m" "1 \<le> m" "m \<le> 12" "toString (Num m) \<noteq> []"
    by blast+
  with assms(2) show ?thesis
    by (simp add: startRequest_def)
qed

lemma saved_month:
  "ls_symptomMonth (saveContext pg ls) = Some (toString (sp_month pg))"
  "ls_symptomMonth (clearStale ls) = ls_symptomMonth ls"
  by (simp_all add: saveContext_def clearStale_def)

lemma str_join_split: "str_join (str_split s c) c = s"
proof (induction s)
  case Nil
  then show ?case by simp
next
  case (Cons a s)
  obtain v vs where s: "str_split s c = v # vs"
    using str_split_nonempty [of s c] by (cases "str_split s c") auto
  with Cons show ?case
    by (cases vs) auto
qed

lemma commaTerms_stored:
  "s \<noteq> [] \<Longrightarrow>
     commaTerms (Some s) = filter (\<lambda>x. x \<noteq> []) (map trim (str_split s (CHR '','')))"
  by (simp add: commaTerms_def)

lemma commaTerms_absent: "commaTerms None = []" "commaTerms (Some []) = []"
  by (simp_all add: commaTerms_def)

text \<open>
  Claim C8. The request \<open>startDiagnosis\<close> builds has the extracted codes as symptoms;
  its region is the stored one and \<open>Global\<close> when none is stored; its month is present
  only when one is stored, and a month stored by the symptoms page is sent as that integer,
  which lies between 1 and 12: the selector offers exactly 1 to 12, the page starts on one
  of these values and both of its handlers store the selected one. The family-history and
  genetic-variant lists are the pieces of the stored text between its commas, each
  trimmed, the empty ones dropped, in their order (and empty lists when nothing is
  stored); so every element is trimmed and nonempty. Each imaging field is present exactly
  when the matching argument is.
\<close>

theorem start_request_shape:
  "symptoms (startRequest ls tx cnn img gcam cs) = extractSymptoms tx
   \<and> (ls_patientRegion ls = None \<longrightarrow> region (startRequest ls tx cnn img gcam cs) = ''Global'')
   \<and> (ls_patientRegion ls = Some g \<and> g \<noteq> [] \<longrightarrow> region (startRequest ls tx cnn img gcam cs) = g)
   \<and> (ls_symptomMonth ls = None \<longrightarrow> month (startRequest ls tx cnn img gcam cs) = None)
   \<and> (m \<in> set monthOptions \<and> ls_symptomMonth ls = Some (toString (Num m)) \<longrightarrow>
        month (startRequest ls tx cnn img gcam cs) = Some (Num m) \<and> 1 \<le> m \<and> m \<le> 12)
   \<and> monthOptions = [1, 2, 3, 4, 5, 6, 7, 8, 9, 10, 11, 12]
   \<and> (getMonth < 12 \<longrightarrow> initialMonth getMonth \<in> Num ` set monthOptions)
   \<and> (m \<in> set monthOptions \<longrightarrow> sp_month (selectMonth (toString (Num m)) pg) = Num m)
   \<and> (trim (sp_symptoms pg) \<noteq> [] \<and> sp_month pg = Num m \<and> m \<in> set monthOptions \<longrightarrow>
        month (startRequest (fst (handleSubmit pg ls)) tx cnn img gcam cs) = Some (Num m)
        \<and> month (startRequest (fst (handleSymptomOnlyAnalysis pg ls)) tx cnn img gcam cs)
            = Some (Num m))
   \<and> (ls_familyHistory ls = Some fh \<and> fh \<noteq> [] \<longrightarrow>
        family_history (startRequest ls tx cnn img gcam cs)
          = filter (\<lambda>x. x \<noteq> []) (map trim (str_split fh (CHR '',''))))
   \<and> (ls_familyHistory ls = None \<or> ls_familyHistory ls = Some [] \<longrightarrow>
        family_history (startRequest ls tx cnn img gcam cs) = [])
   \<and> (ls_geneticVariants ls = Some gv \<and> gv \<noteq> [] \<longrightarrow>
        genetic_variants (startRequest ls tx cnn img gcam cs)
          = filter (\<lambda>x. x \<noteq> []) (map trim (str_split gv (CHR '',''))))
   \<and> (ls_geneticVariants ls = None \<or> ls_geneticVariants ls = Some [] \<longrightarrow>
        genetic_variants (startRequest ls tx cnn img gcam cs) = [])
   \<and> str_join (str_split fh (CHR '','')) (CHR '','') = fh
   \<and> str_join (str_split gv (CHR '','')) (CHR '','') = gv
   \<and> (\<forall>w \<in> set (str_split fh (CHR '','')) \<union> set (str_split gv (CHR '','')). CHR '','' \<notin> set w)
   \<and> (\<forall>x \<in> set (family_history (startRequest ls tx cnn img gcam cs)).
         x \<noteq> [] \<and> trim x = x
         \<and> (\<exists>s piece. ls_familyHistory ls = Some s
               \<and> piece \<in> set (str_split s (CHR '','')) \<and> x = trim piece))
   \<and> (\<forall>x \<in> set (genetic_variants (startRequest ls tx cnn img gcam cs)).
         x \<noteq> [] \<and> trim x = x
         \<and> (\<exists>s piece. ls_geneticVariants ls = Some s
               \<and> piece \<in> set (str_split s (CHR '','')) \<and> x = trim piece))
   \<and> cnn_predictions (startRequest ls tx cnn img gcam cs) = cnn
   \<and> (case_id (startRequest ls tx cnn img gcam cs) = Some c \<longleftrightarrow> cs = Some c \<and> c \<noteq> [])
   \<and> (image_url (startRequest ls tx cnn img gcam cs) = Some c \<longleftrightarrow> img = Some c \<and> c \<noteq> [])
   \<and> (gradcam_url (startRequest ls tx cnn img gcam cs) = Some c \<longleftrightarrow> gcam = Some c \<and> c \<noteq> [])"
proof -
  let ?r = "startRequest ls tx cnn img gcam cs"
  have s: "symptoms ?r = extractSymptoms tx"
    by (simp add: startRequest_def)
  have g1: "ls_patientRegion ls = None \<longrightarrow> region ?r = ''Global''"
    by (simp add: startRequest_def orElse_def)
  have g2: "ls_patientRegion ls = Some g \<and> g \<noteq> [] \<longrightarrow> region ?r = g"
    by (simp add: startRequest_def orElse_def)
  have m1: "ls_symptomMonth ls = None \<longrightarrow> month ?r = None"
    by (simp add: startRequest_def)
  have m2: "m \<in> set monthOptions \<and> ls_symptomMonth ls = Some (toString (Num m)) \<longrightarrow>
        month ?r = Some (Num m) \<and> 1 \<le> m \<and> m \<le> 12"
    using startRequest_month_selected by blast
  have m3: "getMonth < 12 \<longrightarrow> initialMonth getMonth \<in> Num ` set monthOptions"
    using initialMonth_option by blast
  have m4: "m \<in> set monthOptions \<longrightarrow> sp_month (selectMonth (toString (Num m)) pg) = Num m"
    using month_roundtrip by (simp add: selectMonth_def)
  have m5: "trim (sp_symptoms pg) \<noteq> [] \<and> sp_month pg = Num m \<and> m \<in> set monthOptions \<longrightarrow>
        month (startRequest (fst (handleSubmit pg ls)) tx cnn img gcam cs) = Some (Num m)
        \<and> month (startRequest (fst (handleSymptomOnlyAnalysis pg ls)) tx cnn img gcam cs)
            = Some (Num m)"
    using startRequest_month_selected [of m "saveContext pg ls" tx cnn img gcam cs]
      startRequest_month_selected [of m "clearStale (saveContext pg ls)" tx cnn img gcam cs]
    by (simp add: handleSubmit_def handleSymptomOnlyAnalysis_def saved_month)
  have fr: "family_history ?r = commaTerms (ls_familyHistory ls)"
    and vr: "genetic_variants ?r = commaTerms (ls_geneticVariants ls)"
    by (simp_all add: startRequest_def)
  have f1: "ls_familyHistory ls = Some fh \<and> fh \<noteq> [] \<longrightarrow>
        family_history ?r = filter (\<lambda>x. x \<noteq> []) (map trim (str_split fh (CHR '','')))"
    using commaTerms_stored [of fh] by (simp add: fr)
  have f2: "ls_familyHistory ls = None \<or> ls_familyHistory ls = Some [] \<longrightarrow>
        family_history ?r = []"
    using commaTerms_absent by (auto simp: fr)
  have v1: "ls_geneticVariants ls = Some gv \<and> gv \<noteq> [] \<longrightarrow>
        genetic_variants ?r = filter (\<lambda>x. x \<noteq> []) (map trim (str_split gv (CHR '','')))"
    using commaTerms_stored [of gv] by (simp add: vr)
  have v2: "ls_geneticVariants ls = None \<or> ls_geneticVariants ls = Some [] \<longrightarrow>
        genetic_variants ?r = []"
    using commaTerms_absent by (auto simp: vr)
  have j1: "str_join (str_split fh (CHR '','')) (CHR '','') = fh"
    and j2: "str_join (str_split gv (CHR '','')) (CHR '','') = gv"
    by (rule str_join_split)+
  have j3: "\<forall>w \<in> set (str_split fh (CHR '','')) \<union> set (str_split gv (CHR '','')). CHR '','' \<notin> set w"
    using str_split_no_separator by blast
  have f: "\<forall>x \<in> set (family_history ?r).
         x \<noteq> [] \<and> trim x = x
         \<and> (\<exists>s piece. ls_familyHistory ls = Some s
               \<and> piece \<in> set (str_split s (CHR '','')) \<and> x = trim piece)"
    using commaTerms_elements [of _ "ls_familyHistory ls"]
    by (simp add: fr)
  have v: "\<forall>x \<in> set (genetic_variants ?r).
         x \<noteq> [] \<and> trim x = x
         \<and> (\<exists>s piece. ls_geneticVariants ls = Some s
               \<and> piece \<in> set (str_split s (CHR '','')) \<and> x = trim piece)"
    using commaTerms_elements [of _ "ls_geneticVariants ls"]
    by (simp add: vr)
  have i0: "cnn_predictions ?r = cnn"
    by (simp add: startRequest_def)
  have i1: "case_id ?r = Some c \<longleftrightarrow> cs = Some c \<and> c \<noteq> []"
    by (auto simp: startRequest_def truthy_def split: option.splits)
  have i2: "image_url ?r = Some c \<longleftrightarrow> img = Some c \<and> c \<noteq> []"
    by (auto simp: startRequest_def truthy_def split: option.splits)
  have i3: "gradcam_url ?r = Some c \<longleftrightarrow> gcam = Some c \<and> c \<noteq> []"
    by (auto simp: startRequest_def truthy_def split: option.splits)
  from s g1 g2 m1 m2 monthOptions_values m3 m4 m5 f1 f2 v1 v2 j1 j2 j3 f v i0 i1 i2 i3
  show ?thesis
    by (intro conjI)
qed

theorem start_request_shape_witness:
  "symptoms (startRequest (fst (handleSubmit examplePage emptyStorage)) ''Fever, joint pain''
       (Some [(''Pneumonia'', 0.8)]) (Some ''/img/1.png'') None (Some ''c1''))
     = [''fever'', ''joint_pain'']
   \<and> region (startRequest emptyStorage ''Fever, joint pain''
       (Some [(''Pneumonia'', 0.8)]) (Some ''/img/1.png'') None (Some ''c1'')) = ''Global''
   \<and> genetic_variants (startRequest emptyStorage ''Fever, joint pain''
       (Some [(''Pneumonia'', 0.8)]) (Some ''/img/1.png'') None (Some ''c1'')) = []
   \<and> month (startRequest (fst (handleSubmit examplePage emptyStorage)) ''Fever, joint pain''
       (Some [(''Pneumonia'', 0.8)]) (Some ''/img/1.png'') None (Some ''c1'')) = Some (Num 11)
   \<and> family_history (startRequest (fst (handleSubmit examplePage emptyStorage))
       ''Fever, joint pain'' (Some [(''Pneumonia'', 0.8)]) (Some ''/img/1.png'') None (Some ''c1''))
     = [''Diabetes'', ''Hypertension'']
   \<and> genetic_variants (startRequest (fst (handleSubmit examplePage emptyStorage))
       ''Fever, joint pain'' (Some [(''Pneumonia'', 0.8)]) (Some ''/img/1.png'') None (Some ''c1''))
     = [''rs1800562'', ''rs12345'']
   \<and> trim ''Diabetes'' = ''Diabetes''
   \<and> case_id (startRequest (fst (handleSubmit examplePage emptyStorage)) ''Fever, joint pain''
       (Some [(''Pneumonia'', 0.8)]) (Some ''/img/1.png'') None (Some ''c1'')) = Some ''c1''"
proof -
  let ?ls = "fst (handleSubmit examplePage emptyStorage)"
  let ?r = "startRequest ?ls ''Fever, joint pain''
       (Some [(''Pneumonia'', 0.8)]) (Some ''/img/1.png'') None (Some ''c1'')"
  note shape = start_request_shape
      [where ls = ?ls and tx = "''Fever, joint pain''" and cnn = "Some [(''Pneumonia'', 0.8)]"
         and img = "Some ''/img/1.png''" and gcam = None and cs = "Some ''c1''"
         and pg = examplePage and m = 11 and c = "''c1''"]
  note shapeI = start_request_shape
      [where ls = ?ls and tx = "''Fever, joint pain''" and cnn = "Some [(''Pneumonia'', 0.8)]"
         and img = "Some ''/img/1.png''" and gcam = None and cs = "Some ''c1''"
         and pg = examplePage and m = 11 and c = "''c1''" and g = "''Europe''"
         and getMonth = 0
         and fh = "''Diabetes , ,Hypertension''" and gv = "''rs1800562, rs12345''"]
  note shape0 = start_request_shape
      [where ls = emptyStorage and tx = "''Fever, joint pain''"
         and cnn = "Some [(''Pneumonia'', 0.8)]"
         and img = "Some ''/img/1.png''" and gcam = None and cs = "Some ''c1''"]
  have x: "extractSymptoms ''Fever, joint pain'' = [''fever'', ''joint_pain'']"
    by code_simp
  have p: "trim (sp_symptoms examplePage) \<noteq> []"
    by code_simp
  have o: "(11::int) \<in> set monthOptions"
    by code_simp
  have q: "sp_month examplePage = Num 11"
    by (simp add: examplePage_def)
  have n: "ls_patientRegion emptyStorage = None" "ls_geneticVariants emptyStorage = None"
    by (simp_all add: emptyStorage_def)
  have sf: "ls_familyHistory ?ls = Some ''Diabetes , ,Hypertension''"
    and sg: "ls_geneticVariants ?ls = Some ''rs1800562, rs12345''"
    by code_simp+
  have ef: "filter (\<lambda>x. x \<noteq> []) (map trim (str_split ''Diabetes , ,Hypertension'' (CHR '','')))
              = [''Diabetes'', ''Hypertension'']"
    and eg: "filter (\<lambda>x. x \<noteq> []) (map trim (str_split ''rs1800562, rs12345'' (CHR '','')))
              = [''rs1800562'', ''rs12345'']"
    by code_simp+
  from shape x have a: "symptoms ?r = [''fever'', ''joint_pain'']"
    by simp
  from shape0 n have b: "region (startRequest emptyStorage ''Fever, joint pain''
       (Some [(''Pneumonia'', 0.8)]) (Some ''/img/1.png'') None (Some ''c1'')) = ''Global''"
    and b2: "genetic_variants (startRequest emptyStorage ''Fever, joint pain''
       (Some [(''Pneumonia'', 0.8)]) (Some ''/img/1.png'') None (Some ''c1'')) = []"
    by blast+
  have h: "month (startRequest (fst (handleSubmit examplePage ?ls)) ''Fever, joint pain''
       (Some [(''Pneumonia'', 0.8)]) (Some ''/img/1.png'') None (Some ''c1'')) = Some (Num 11)"
    using shape p o q by blast
  have i: "fst (handleSubmit examplePage ?ls) = ?ls"
    by (simp add: handleSubmit_def saveContext_def)
  from h i have c: "month ?r = Some (Num 11)"
    by simp
  have lists:
    "(ls_familyHistory ?ls = Some F \<and> F \<noteq> [] \<longrightarrow>
        family_history ?r = filter (\<lambda>x. x \<noteq> []) (map trim (str_split F (CHR '',''))))
     \<and> (ls_geneticVariants ?ls = Some G \<and> G \<noteq> [] \<longrightarrow>
        genetic_variants ?r = filter (\<lambda>x. x \<noteq> []) (map trim (str_split G (CHR '',''))))"
    for F G
    using start_request_shape
      [where ls = ?ls and tx = "''Fever, joint pain''" and cnn = "Some [(''Pneumonia'', 0.8)]"
         and img = "Some ''/img/1.png''" and gcam = None and cs = "Some ''c1''"
         and fh = F and gv = G]
    by blast
  have nf: "''Diabetes , ,Hypertension'' \<noteq> []" and ng: "''rs1800562, rs12345'' \<noteq> []"
    by simp_all
  from lists [of "''Diabetes , ,Hypertension''" "''rs1800562, rs12345''"] sf nf
  have "family_history ?r
      = filter (\<lambda>x. x \<noteq> []) (map trim (str_split ''Diabetes , ,Hypertension'' (CHR '','')))"
    by blast
  from this ef have f: "family_history ?r = [''Diabetes'', ''Hypertension'']"
    by (rule trans)
  from lists [of "''Diabetes , ,Hypertension''" "''rs1800562, rs12345''"] sg ng
  have "genetic_variants ?r
      = filter (\<lambda>x. x \<noteq> []) (map trim (str_split ''rs1800562, rs12345'' (CHR '','')))"
    by blast
  from this eg have v: "genetic_variants ?r = [''rs1800562'', ''rs12345'']"
    by (rule trans)
  have mem: "''Diabetes'' \<in> set (family_history ?r)"
    unfolding f by simp
  have every: "\<forall>x \<in> set (family_history ?r).
         x \<noteq> [] \<and> trim x = x
         \<and> (\<exists>s piece. ls_familyHistory ?ls = Some s
               \<and> piece \<in> set (str_split s (CHR '','')) \<and> x = trim piece)"
    using shapeI by - (elim conjE)
  from bspec [OF every mem] have d: "trim ''Diabetes'' = ''Diabetes''"
    by (elim conjE)
  have "case_id ?r = Some ''c1'' \<longleftrightarrow> Some ''c1'' = Some ''c1'' \<and> ''c1'' \<noteq> []"
    using shapeI by - (elim conjE)
  then have e: "case_id ?r = Some ''c1''"
    by simp
  from a b b2 c f v d e show ?thesis
    by (intro conjI)
qed

section \<open>Symptom-only paths\<close>

lemma trim_nonempty_source: "trim s \<noteq> [] \<Longrightarrow> s \<noteq> []"
  by (auto simp: trim_Nil)

lemma clearStale_keys:
  "ls_cnnPredictions (clearStale ls) = None"
  "ls_imageUrl (clearStale ls) = None"
  "ls_gradcamUrl (clearStale ls) = None"
  "ls_diagnosisCaseId (clearStale ls) = None"
  "ls_diagnosisSessionId (clearStale ls) = None"
  "ls_symptoms (clearStale ls) = ls_symptoms ls"
  by (simp_all add: clearStale_def)

text \<open>
  On a storage without imaging keys and without a session id, but with symptoms, the
  mount effect starts a diagnosis and the request it issues carries no imaging field.
\<close>

lemma mountEffect_cleared:
  assumes "ls_cnnPredictions ls = None" and "ls_imageUrl ls = None"
    and "ls_gradcamUrl ls = None" and "ls_diagnosisCaseId ls = None"
    and "ls_diagnosisSessionId ls = None" and "ls_symptoms ls = Some s" and "s \<noteq> []"
  shows "snd (snd (mountEffect net startNet st ls))
           = [PostStart (startRequest ls s None None None None)]"
    and "cnn_predictions (startRequest ls s None None None None) = None"
    and "case_id (startRequest ls s None None None None) = None"
    and "image_url (startRequest ls s None None None None) = None"
    and "gradcam_url (startRequest ls s None None None None) = None"
  using assms
  by (simp_all add: mountEffect_def Let_def truthy_def orElse_def startDiagnosis_requests
      startRequest_def)

text \<open>
  The handler of Analyze Symptoms Only (when symptoms were entered) and the success path
  of Skip Scan (when symptoms are stored) both leave storage without the keys
  \<open>cnnPredictions\<close>, \<open>imageUrl\<close>, \<open>gradcamUrl\<close> and \<open>diagnosisCaseId\<close> and
  navigate to the diagnosis flow; the mount effect of the flow on that storage issues one
  start request, and it has no \<open>cnn_predictions\<close>, \<open>case_id\<close>, \<open>image_url\<close> or
  \<open>gradcam_url\<close>.
\<close>

lemma symptom_only_handlers_clear_imaging:
  "(trim (sp_symptoms pg) \<noteq> [] \<longrightarrow>
      ls_cnnPredictions (fst (handleSymptomOnlyAnalysis pg ls)) = None
      \<and> ls_imageUrl (fst (handleSymptomOnlyAnalysis pg ls)) = None
      \<and> ls_gradcamUrl (fst (handleSymptomOnlyAnalysis pg ls)) = None
      \<and> ls_diagnosisCaseId (fst (handleSymptomOnlyAnalysis pg ls)) = None
      \<and> snd (handleSymptomOnlyAnalysis pg ls) = Some DiagnosisFlowRoute
      \<and> (\<exists>r. snd (snd (mountEffect net startNet st (fst (handleSymptomOnlyAnalysis pg ls))))
                 = [PostStart r]
            \<and> symptoms r = extractSymptoms (sp_symptoms pg)
            \<and> cnn_predictions r = None \<and> case_id r = None
            \<and> image_url r = None \<and> gradcam_url r = None))
   \<and> (ls_symptoms ls = Some s \<and> s \<noteq> [] \<longrightarrow>
      ls_cnnPredictions (fst (snd (handleSkipScan (Body True data) up ls))) = None
      \<and> ls_imageUrl (fst (snd (handleSkipScan (Body True data) up ls))) = None
      \<and> ls_gradcamUrl (fst (snd (handleSkipScan (Body True data) up ls))) = None
      \<and> ls_diagnosisCaseId (fst (snd (handleSkipScan (Body True data) up ls))) = None
      \<and> snd (snd (snd (handleSkipScan (Body True data) up ls)))
      \<and> (\<exists>r. snd (snd (mountEffect net startNet st
                   (fst (snd (handleSkipScan (Body True data) up ls)))))
                 = [PostStart r]
            \<and> symptoms r = extractSymptoms s
            \<and> cnn_predictions r = None \<and> case_id r = None
            \<and> image_url r = None \<and> gradcam_url r = None))"
proof (intro conjI impI)
  assume t: "trim (sp_symptoms pg) \<noteq> []"
  let ?ls = "fst (handleSymptomOnlyAnalysis pg ls)"
  from t have e: "?ls = clearStale (saveContext pg ls)"
    by (simp add: handleSymptomOnlyAnalysis_def)
  from t have ne: "sp_symptoms pg \<noteq> []"
    by (rule trim_nonempty_source)
  have sy: "ls_symptoms ?ls = Some (sp_symptoms pg)"
    by (simp add: e clearStale_keys saveContext_def)
  show "ls_cnnPredictions ?ls = None" "ls_imageUrl ?ls = None"
    "ls_gradcamUrl ?ls = None" "ls_diagnosisCaseId ?ls = None"
    by (simp_all add: e clearStale_keys)
  from t show "snd (handleSymptomOnlyAnalysis pg ls) = Some DiagnosisFlowRoute"
    by (simp add: handleSymptomOnlyAnalysis_def)
  have k: "ls_cnnPredictions ?ls = None" "ls_imageUrl ?ls = None"
    "ls_gradcamUrl ?ls = None" "ls_diagnosisCaseId ?ls = None" "ls_diagnosisSessionId ?ls = None"
    by (simp_all add: e clearStale_keys)
  let ?r = "startRequest ?ls (sp_symptoms pg) None None None None"
  have "snd (snd (mountEffect net startNet st ?ls)) = [PostStart ?r]"
    and "cnn_predictions ?r = None" and "case_id ?r = None"
    and "image_url ?r = None" and "gradcam_url ?r = None"
    using mountEffect_cleared [OF k sy ne] by blast+
  moreover have "symptoms ?r = extractSymptoms (sp_symptoms pg)"
    by (simp add: startRequest_def)
  ultimately show "\<exists>r. snd (snd (mountEffect net startNet st ?ls)) = [PostStart r]
            \<and> symptoms r = extractSymptoms (sp_symptoms pg)
            \<and> cnn_predictions r = None \<and> case_id r = None
            \<and> image_url r = None \<and> gradcam_url r = None"
    by blast
next
  assume h: "ls_symptoms ls = Some s \<and> s \<noteq> []"
  let ?ls = "fst (snd (handleSkipScan (Body True data) up ls))"
  from h have e: "?ls = clearStale (ls\<lparr>ls_lastCaseId := Some (stringOf (sub_case_id data)),
                           ls_lastAnalysis := Some (SubmitData data)\<rparr>)"
    by (simp add: handleSkipScan_def truthy_def Let_def)
  from h have sy: "ls_symptoms ?ls = Some s" and ne: "s \<noteq> []"
    by (simp_all add: e clearStale_keys)
  have k: "ls_cnnPredictions ?ls = None" "ls_imageUrl ?ls = None"
    "ls_gradcamUrl ?ls = None" "ls_diagnosisCaseId ?ls = None" "ls_diagnosisSessionId ?ls = None"
    by (simp_all add: e clearStale_keys)
  from k show "ls_cnnPredictions ?ls = None" "ls_imageUrl ?ls = None"
    "ls_gradcamUrl ?ls = None" "ls_diagnosisCaseId ?ls = None"
    by simp_all
  from h show "snd (snd (snd (handleSkipScan (Body True data) up ls)))"
    by (simp add: handleSkipScan_def truthy_def Let_def)
  let ?r = "startRequest ?ls s None None None None"
  have "snd (snd (mountEffect net startNet st ?ls)) = [PostStart ?r]"
    and "cnn_predictions ?r = None" and "case_id ?r = None"
    and "image_url ?r = None" and "gradcam_url ?r = None"
    using mountEffect_cleared [OF k sy ne] by blast+
  moreover have "symptoms ?r = extractSymptoms s"
    by (simp add: startRequest_def)
  ultimately show "\<exists>r. snd (snd (mountEffect net startNet st ?ls)) = [PostStart r]
            \<and> symptoms r = extractSymptoms s
            \<and> cnn_predictions r = None \<and> case_id r = None
            \<and> image_url r = None \<and> gradcam_url r = None"
    by blast
qed

text \<open>
  Claim C10. Every symptom-only path should clear the imaging state before the diagnosis
  flow starts. Upload and Analyze with no file selected and symptoms stored is such a
  path: it submits the symptoms alone and navigates to the flow. It removes no key. On a
  storage that still holds the imaging items of an earlier upload it leaves the
  predictions and both image references in place, and the mount effect of the flow then
  sends them in the start request.
\<close>

theorem upload_without_file_keeps_imaging:
  "ls_cnnPredictions storageAfterFailedStart = Some [(''Pneumonia'', 0.8)]
   \<and> ls_diagnosisSessionId storageAfterFailedStart = None
   \<and> snd (snd (handleUpload (Body True exampleSubmit) noFilePage storageAfterFailedStart))
       = ([PostSubmit \<lparr>fd_name = ''Anonymous Patient'', fd_symptoms = ''Fever, joint pain'',
                        fd_image = None\<rparr>], True)
   \<and> ls_cnnPredictions (fst (snd (handleUpload (Body True exampleSubmit) noFilePage
         storageAfterFailedStart))) = Some [(''Pneumonia'', 0.8)]
   \<and> ls_imageUrl (fst (snd (handleUpload (Body True exampleSubmit) noFilePage
         storageAfterFailedStart))) = Some ''/img/1.png''
   \<and> ls_gradcamUrl (fst (snd (handleUpload (Body True exampleSubmit) noFilePage
         storageAfterFailedStart))) = Some ''/img/1_cam.png''
   \<and> snd (snd (mountEffect (FetchRejects '''') (Body True exampleStart) initialFlow
         (fst (snd (handleUpload (Body True exampleSubmit) noFilePage storageAfterFailedStart)))))
       = [PostStart
            \<lparr>symptoms = [''fever'', ''joint_pain''], region = ''Europe'',
             month = Some (Num 11),
             family_history = [''Diabetes'', ''Hypertension''],
             genetic_variants = [''rs1800562'', ''rs12345''],
             cnn_predictions = Some [(''Pneumonia'', 0.8)],
             case_id = Some ''c7'',
             image_url = Some ''/img/1.png'',
             gradcam_url = Some ''/img/1_cam.png''\<rparr>]"
proof -
  have m: "showNat 11 = ''11''"
    by code_simp
  have p: "parseInt ''11'' = Num 11"
    by code_simp
  have t: "trim ''Fever, joint pain'' \<noteq> []"
    by code_simp
  have x: "extractSymptoms ''Fever, joint pain'' = [''fever'', ''joint_pain'']"
    by code_simp
  have f: "commaTerms (Some ''Diabetes , ,Hypertension'') = [''Diabetes'', ''Hypertension'']"
    by code_simp
  have g: "commaTerms (Some ''rs1800562, rs12345'') = [''rs1800562'', ''rs12345'']"
    by code_simp
  have s: "storageAfterFailedStart =
     emptyStorage
       \<lparr>ls_symptoms := Some ''Fever, joint pain'',
        ls_patientRegion := Some ''Europe'',
        ls_symptomMonth := Some ''11'',
        ls_familyHistory := Some ''Diabetes , ,Hypertension'',
        ls_geneticVariants := Some ''rs1800562, rs12345'',
        ls_cnnPredictions := Some [(''Pneumonia'', 0.8)],
        ls_imageUrl := Some ''/img/1.png'',
        ls_gradcamUrl := Some ''/img/1_cam.png'',
        ls_diagnosisCaseId := Some ''c1'',
        ls_lastCaseId := Some ''c1'',
        ls_lastAnalysis := Some (SubmitData exampleImageSubmit)\<rparr>"
    by (simp add: storageAfterFailedStart_def Let_def handleSubmit_def saveContext_def
        examplePage_def t m handleUpload_def noFilePage_def orElse_def truthy_def
        storeUpload_def exampleImageSubmit_def stringOf_def mountEffect_def
        startDiagnosis_def emptyStorage_def)
  show ?thesis
    by (simp add: s handleUpload_def noFilePage_def orElse_def truthy_def Let_def
        storeUpload_def exampleSubmit_def stringOf_def mountEffect_def startDiagnosis_def
        startRequest_def emptyStorage_def x f g p)
qed

end
